theory Spec2Isabelle
  imports Complex_Main
begin

section \<open>Numeric model\<close>

text \<open>
  The program of \<^verbatim>\<open>singularity.cpp\<close> computes with C++ \<^verbatim>\<open>double\<close>. The embedding reads a
  finite double as a \<^typ>\<open>real\<close> and every arithmetic operation on finite doubles as the
  exact one: rounding, overflow and underflow are outside the model, and a theorem below
  is a statement about the formulas of the program in exact arithmetic.

  What IEEE arithmetic does where the exact operation is undefined is written out. In the
  two routines of the solver a division by zero, and the inverse of a singular matrix,
  give entries that are not finite numbers; the model returns an error there.
\<close>

datatype num_error = DivisionByZero | SingularMatrix | IndexOutOfRange | NotFinite

definition fdiv :: "real \<Rightarrow> real \<Rightarrow> num_error + real" where
  "fdiv a b = (if b = 0 then Inl DivisionByZero else Inr (a / b))"

text \<open>
  In the trajectory generator the quotients of doubles are followed as IEEE arithmetic
  computes them: a double is a finite number, an infinity or NaN. The quotient of two
  finite doubles \<^verbatim>\<open>a / b\<close> is finite when \<open>b\<close> is not zero; \<^verbatim>\<open>a / 0.0\<close> is \<open>+inf\<close> for a
  positive \<open>a\<close>, \<open>-inf\<close> for a negative \<open>a\<close> and NaN for \<open>a = 0\<close> (the zero divisor is the
  positive zero, which is the zero that the program computes from non-negative numbers).
  A comparison \<^verbatim>\<open><\<close> with NaN on either side is false.
\<close>

datatype xdouble = Finite real | PosInf | NegInf | NaN

definition ieee_div :: "real \<Rightarrow> real \<Rightarrow> xdouble" where
  "ieee_div a b =
     (if b \<noteq> 0 then Finite (a / b)
      else if 0 < a then PosInf
      else if a < 0 then NegInf
      else NaN)"

fun xdouble_less :: "xdouble \<Rightarrow> xdouble \<Rightarrow> bool" where
  "xdouble_less NaN _ = False"
| "xdouble_less _ NaN = False"
| "xdouble_less (Finite a) (Finite b) = (a < b)"
| "xdouble_less (Finite a) PosInf = True"
| "xdouble_less (Finite a) NegInf = False"
| "xdouble_less PosInf _ = False"
| "xdouble_less NegInf NegInf = False"
| "xdouble_less NegInf _ = True"

section \<open>Dense matrices and vectors\<close>

text \<open>
  \<^verbatim>\<open>Eigen::VectorXd\<close> is a list of reals and \<^verbatim>\<open>Eigen::MatrixXd\<close> the list of its rows.
  The operations below are the ones of the Eigen library that the source calls
  (\<^verbatim>\<open>rows()\<close>, \<^verbatim>\<open>cols()\<close>, \<^verbatim>\<open>transpose()\<close>, \<^verbatim>\<open>operator*\<close>, \<^verbatim>\<open>operator+\<close>,
  \<^verbatim>\<open>Identity(n, n)\<close>, \<^verbatim>\<open>asDiagonal()\<close>).
\<close>

type_synonym vec = "real list"
type_synonym mat = "real list list"

definition is_mat :: "nat \<Rightarrow> nat \<Rightarrow> mat \<Rightarrow> bool" where
  "is_mat m n A = (length A = m \<and> list_all (\<lambda>r. length r = n) A)"

definition mat_rows :: "mat \<Rightarrow> nat" where
  "mat_rows A = length A"

definition mat_cols :: "mat \<Rightarrow> nat" where
  "mat_cols A = (case A of [] \<Rightarrow> 0 | r # _ \<Rightarrow> length r)"

definition dot :: "vec \<Rightarrow> vec \<Rightarrow> real" where
  "dot u v = sum_list (map2 (*) u v)"

definition mat_col :: "mat \<Rightarrow> nat \<Rightarrow> vec" where
  "mat_col A j = map (\<lambda>r. r ! j) A"

definition mat_transpose :: "mat \<Rightarrow> mat" where
  "mat_transpose A = map (mat_col A) [0..<mat_cols A]"

definition mat_mult :: "mat \<Rightarrow> mat \<Rightarrow> mat" where
  "mat_mult A B = map (\<lambda>r. map (\<lambda>j. dot r (mat_col B j)) [0..<mat_cols B]) A"

definition mat_add :: "mat \<Rightarrow> mat \<Rightarrow> mat" where
  "mat_add A B = map2 (map2 (+)) A B"

definition mat_scale :: "real \<Rightarrow> mat \<Rightarrow> mat" where
  "mat_scale c A = map (map ((*) c)) A"

definition mat_identity :: "nat \<Rightarrow> mat" where
  "mat_identity n = map (\<lambda>i. map (\<lambda>j. if i = j then 1 else 0) [0..<n]) [0..<n]"

definition mat_diagonal :: "vec \<Rightarrow> mat" where
  "mat_diagonal d =
     map (\<lambda>i. map (\<lambda>j. if i = j then d ! i else 0) [0..<length d]) [0..<length d]"

definition mat_vec :: "mat \<Rightarrow> vec \<Rightarrow> vec" where
  "mat_vec A v = map (\<lambda>r. dot r v) A"

section \<open>Damped pseudo-inverse without SVD\<close>

text \<open>
  \<^verbatim>\<open>kinematics::calculateDampedPseudoInverse_without_SVD\<close> (lines 286 to 312). The matrix
  inverse is Eigen's \<^verbatim>\<open>inverse()\<close>, a library routine that is not part of the repository:
  it is the parameter \<open>minv\<close>, which returns \<open>None\<close> where the matrix is singular. The
  argument \<open>eps\<close> is unused, as in the source.
\<close>

definition calculateDampedPseudoInverse_without_SVD ::
  "(mat \<Rightarrow> mat option) \<Rightarrow> mat \<Rightarrow> real \<Rightarrow> real \<Rightarrow> num_error + mat" where
  "calculateDampedPseudoInverse_without_SVD minv jacb eps lambda =
     (let jacb_transpose = mat_transpose jacb in
      if mat_rows jacb \<ge> mat_cols jacb then
        (let lhs = mat_add (mat_mult jacb_transpose jacb)
                     (mat_scale (lambda * lambda) (mat_identity (mat_cols jacb)))
         in case minv lhs of
              None \<Rightarrow> Inl SingularMatrix
            | Some lhs_inverse \<Rightarrow> Inr (mat_mult lhs_inverse jacb_transpose))
      else
        (let rhs = mat_add (mat_mult jacb jacb_transpose)
                     (mat_scale (lambda * lambda) (mat_identity (mat_rows jacb)))
         in case minv rhs of
              None \<Rightarrow> Inl SingularMatrix
            | Some rhs_inverse \<Rightarrow> Inr (mat_mult jacb_transpose rhs_inverse)))"

section \<open>Damped pseudo-inverse with SVD\<close>

text \<open>
  \<^verbatim>\<open>kinematics::calculateDampedPseudoInverse_with_SVD\<close> (lines 318 to 349). The
  decomposition is Eigen's \<^verbatim>\<open>JacobiSVD\<close>, a library routine: it is the parameter \<open>svd\<close>,
  which returns the triple \<open>(U, Sv, V)\<close> of \<^verbatim>\<open>matrixU()\<close>, \<^verbatim>\<open>singularValues()\<close> and
  \<^verbatim>\<open>matrixV()\<close>. \<open>inv_Sv_entry\<close> is the body of the loop (lines 339 to 346) and
  \<open>inv_Sv_loop\<close> the loop over \<open>i\<close>, which writes \<open>inv_Sv(i)\<close>. The vector \<open>inv_Sv\<close> is not
  initialised in the source and every component is written by the loop; it starts as a
  vector of zeros here.
\<close>

definition inv_Sv_entry :: "real \<Rightarrow> real \<Rightarrow> real \<Rightarrow> num_error + real" where
  "inv_Sv_entry eps lambda s =
     (if \<bar>s\<bar> > eps then fdiv 1 s
      else fdiv s (s * s + lambda * lambda))"

function inv_Sv_loop :: "real \<Rightarrow> real \<Rightarrow> vec \<Rightarrow> nat \<Rightarrow> vec \<Rightarrow> num_error + vec" where
  "inv_Sv_loop eps lambda Sv i inv_Sv =
     (if i < length Sv then
        (case inv_Sv_entry eps lambda (Sv ! i) of
           Inl e \<Rightarrow> Inl e
         | Inr r \<Rightarrow> inv_Sv_loop eps lambda Sv (Suc i) (inv_Sv[i := r]))
      else Inr inv_Sv)"
  by pat_completeness auto
termination
  by (relation "measure (\<lambda>(eps, lambda, Sv, i, inv_Sv). length Sv - i)") auto

declare inv_Sv_loop.simps [simp del]

definition calculateDampedPseudoInverse_with_SVD ::
  "(mat \<Rightarrow> mat \<times> vec \<times> mat) \<Rightarrow> mat \<Rightarrow> real \<Rightarrow> real \<Rightarrow> num_error + mat" where
  "calculateDampedPseudoInverse_with_SVD svd jacb eps lambda =
     (case svd jacb of (U, Sv, V) \<Rightarrow>
        (let nSv = length Sv in
         case inv_Sv_loop eps lambda Sv 0 (replicate nSv 0) of
           Inl e \<Rightarrow> Inl e
         | Inr inv_Sv \<Rightarrow>
             Inr (mat_mult (mat_mult V (mat_diagonal inv_Sv)) (mat_transpose U))))"

section \<open>The control loop: clamping and integration\<close>

text \<open>
  The last loop of the body of \<^verbatim>\<open>main\<close> (lines 657 to 665). \<open>dmax\<close> is the constant
  \<^verbatim>\<open>1.0 * M_PI / 180.0\<close> of the source; \<open>clamp_delta\<close> is the two-branch \<^verbatim>\<open>if\<close> of lines
  661 and 662. Reading \<^verbatim>\<open>d_theta[i]\<close> beyond the end of \<^verbatim>\<open>d_theta\<close> is the error
  \<open>IndexOutOfRange\<close>. \<open>joint_position\<close> is \<^verbatim>\<open>current_joints.position\<close>.
\<close>

definition dmax :: real where
  "dmax = 1.0 * pi / 180.0"

definition clamp_delta :: "real \<Rightarrow> real \<Rightarrow> real" where
  "clamp_delta dm d = (if d > dm then dm else if d < - dm then - dm else d)"

function joint_update_loop :: "real \<Rightarrow> nat \<Rightarrow> vec \<Rightarrow> vec \<Rightarrow> num_error + (vec \<times> vec)" where
  "joint_update_loop dm i joint_position d_theta =
     (if i < length joint_position then
        (if i < length d_theta then
           (let d = clamp_delta dm (d_theta ! i)
            in joint_update_loop dm (Suc i) (joint_position[i := joint_position ! i + d]) (d_theta[i := d]))
         else Inl IndexOutOfRange)
      else Inr (joint_position, d_theta))"
  by pat_completeness auto
termination
  by (relation "measure (\<lambda>(dm, i, joint_position, d_theta). length joint_position - i)") auto

declare joint_update_loop.simps [simp del]

text \<open>
  Lines 647 to 665: the joint step \<^verbatim>\<open>d_theta = jacb_pseudo_inv * sTwist_error\<close>, computed
  with the pseudo-inverse of line 608, then clamped and added to the joint positions.
  \<open>dm\<close> is the largest step of one tick (\<open>dmax\<close> in the source).
\<close>

definition solve_and_integrate ::
  "(mat \<Rightarrow> mat option) \<Rightarrow> real \<Rightarrow> mat \<Rightarrow> real \<Rightarrow> real \<Rightarrow> vec \<Rightarrow> vec
     \<Rightarrow> num_error + (vec \<times> vec)" where
  "solve_and_integrate minv dm jacobian dls_eps dls_lambda sTwist_error joint_position =
     (case calculateDampedPseudoInverse_without_SVD minv jacobian dls_eps dls_lambda of
        Inl e \<Rightarrow> Inl e
      | Inr jacb_pseudo_inv \<Rightarrow>
          joint_update_loop dm 0 joint_position (mat_vec jacb_pseudo_inv sTwist_error))"

section \<open>Vocabulary of the claims about the solver\<close>

text \<open>
  \<open>damped_matrix\<close> is the matrix that \<^verbatim>\<open>calculateDampedPseudoInverse_without_SVD\<close>
  inverts: \<^verbatim>\<open>lhs\<close> of line 295 when the Jacobian has at least as many rows as columns,
  \<^verbatim>\<open>rhs\<close> of line 305 otherwise.
\<close>

definition damped_matrix :: "mat \<Rightarrow> real \<Rightarrow> mat" where
  "damped_matrix jacb lambda =
     (if mat_rows jacb \<ge> mat_cols jacb
      then mat_add (mat_mult (mat_transpose jacb) jacb)
             (mat_scale (lambda * lambda) (mat_identity (mat_cols jacb)))
      else mat_add (mat_mult jacb (mat_transpose jacb))
             (mat_scale (lambda * lambda) (mat_identity (mat_rows jacb))))"



text \<open>
  The words of the claim about the filter of the singular values: the reciprocal
  \<open>1 / \<sigma>\<close> above the threshold, the damped value \<open>\<sigma> / (\<sigma>\<^sup>2 + \<lambda>\<^sup>2)\<close> otherwise; and the
  number by which the source divides in each case.
\<close>

definition filtered_reciprocal :: "real \<Rightarrow> real \<Rightarrow> real \<Rightarrow> real" where
  "filtered_reciprocal eps lambda s =
     (if \<bar>s\<bar> > eps then 1 / s else s / (s\<^sup>2 + lambda\<^sup>2))"

definition filter_divisor :: "real \<Rightarrow> real \<Rightarrow> real \<Rightarrow> real" where
  "filter_divisor eps lambda s = (if \<bar>s\<bar> > eps then s else s\<^sup>2 + lambda\<^sup>2)"

section \<open>An instance of the matrix inverse\<close>

text \<open>
  The inverse in exact arithmetic, by Gauss-Jordan elimination on the matrix \<open>[A | I]\<close>:
  for each column a row with a non-zero entry is brought to the diagonal, scaled, and
  subtracted from the other rows. A column without such a row means that the matrix is
  singular. It is the inverse routine at the concrete inputs below.
\<close>

definition find_pivot :: "mat \<Rightarrow> nat \<Rightarrow> nat option" where
  "find_pivot A k = List.find (\<lambda>i. A ! i ! k \<noteq> 0) [k..<length A]"

definition swap_rows :: "mat \<Rightarrow> nat \<Rightarrow> nat \<Rightarrow> mat" where
  "swap_rows A i j = A[i := A ! j, j := A ! i]"

definition eliminate_column :: "mat \<Rightarrow> nat \<Rightarrow> mat" where
  "eliminate_column A k =
     (let pr = map (\<lambda>x. x / (A ! k ! k)) (A ! k) in
      map (\<lambda>i. if i = k then pr else map2 (\<lambda>a b. a - (A ! i ! k) * b) (A ! i) pr)
        [0..<length A])"

fun gauss_jordan :: "nat \<Rightarrow> nat \<Rightarrow> mat \<Rightarrow> mat option" where
  "gauss_jordan 0 k A = Some A"
| "gauss_jordan (Suc f) k A =
     (case find_pivot A k of
        None \<Rightarrow> None
      | Some p \<Rightarrow> gauss_jordan f (Suc k) (eliminate_column (swap_rows A k p) k))"

definition gauss_jordan_inverse :: "mat \<Rightarrow> mat option" where
  "gauss_jordan_inverse A =
     (let n = length A; aug = map2 (@) A (mat_identity n)
      in map_option (map (drop n)) (gauss_jordan n 0 aug))"

section \<open>Poses and the tf library\<close>

text \<open>
  \<^verbatim>\<open>geometry_msgs::Point\<close>, \<^verbatim>\<open>geometry_msgs::Quaternion\<close> and \<^verbatim>\<open>geometry_msgs::Pose\<close>.
\<close>

record point =
  px :: real
  py :: real
  pz :: real

record quaternion =
  qx :: real
  qy :: real
  qz :: real
  qw :: real

record pose =
  position :: point
  orientation :: quaternion

text \<open>
  The routines of the tf and tf2 libraries that \<^verbatim>\<open>LocalTarget\<close> calls are not part of the
  repository. They are the fields of a record that the model takes as a parameter:
  \<^item> \<open>relative_transform target ref\<close> is \<^verbatim>\<open>ref_tf.inverse() * target_tf\<close>, read back as a
    pose by \<^verbatim>\<open>tf::poseTFToMsg\<close>;
  \<^item> \<open>getAngleShortestPath\<close> is \<^verbatim>\<open>tf::Quaternion::getAngleShortestPath\<close>;
  \<^item> \<open>slerp\<close> is \<^verbatim>\<open>tf2::slerp\<close>.
\<close>

record tf_library =
  relative_transform :: "pose \<Rightarrow> pose \<Rightarrow> pose"
  getAngleShortestPath :: "quaternion \<Rightarrow> real"
  slerp :: "quaternion \<Rightarrow> quaternion \<Rightarrow> real \<Rightarrow> quaternion"

text \<open>\<^verbatim>\<open>kinematics::dPose_geom\<close> (lines 248 to 263).\<close>

definition dPose_geom :: "tf_library \<Rightarrow> pose \<Rightarrow> pose \<Rightarrow> pose" where
  "dPose_geom lib target ref = relative_transform lib target ref"

section \<open>The moving target\<close>

text \<open>
  The class \<^verbatim>\<open>LocalTarget\<close> (lines 416 to 509). Its fields are the fields of the record.
  A name cannot end with an underscore here: the underscore that ends the names of the
  private members of the class is a prime (\<^verbatim>\<open>pose_\<close> is \<open>pose'\<close>, \<^verbatim>\<open>reset_\<close> is \<open>reset'\<close>).
  The two global waypoints \<^verbatim>\<open>eef_target1\<close> and \<^verbatim>\<open>eef_target2\<close>, which a callback of the
  user interface writes, and the readings of the clock \<^verbatim>\<open>ros::Time::now()\<close>, in seconds,
  are arguments of the methods.
\<close>

record LocalTarget =
  linear_vel' :: real
  dquat_rot_vel' :: real
  global_target_id' :: int
  from' :: pose
  to' :: pose
  start_time' :: real
  expected_duration' :: real
  pose' :: pose

text \<open>
  \<^verbatim>\<open>LocalTarget::isClose_\<close> (lines 458 to 468).
\<close>

definition isClose' :: "LocalTarget \<Rightarrow> bool" where
  "isClose' st =
     (let tolerance = 0.01 in
      \<bar>px (position (pose' st)) - px (position (to' st))\<bar> < tolerance \<and>
      \<bar>py (position (pose' st)) - py (position (to' st))\<bar> < tolerance \<and>
      \<bar>pz (position (pose' st)) - pz (position (to' st))\<bar> < tolerance \<and>
      \<bar>qx (orientation (pose' st)) - qx (orientation (to' st))\<bar> < tolerance \<and>
      \<bar>qy (orientation (pose' st)) - qy (orientation (to' st))\<bar> < tolerance \<and>
      \<bar>qz (orientation (pose' st)) - qz (orientation (to' st))\<bar> < tolerance \<and>
      \<bar>qw (orientation (pose' st)) - qw (orientation (to' st))\<bar> < tolerance)"

text \<open>
  \<^verbatim>\<open>LocalTarget::reset_\<close> (lines 470 to 494); \<open>now\<close> is the reading of the clock at line
  476. The two quotients of lines 486 and 490 are divisions of doubles, with no test of
  the divisor, and \<^verbatim>\<open>std::max(a, b)\<close> is \<^verbatim>\<open>(a < b) ? b : a\<close>. The field
  \<open>expected_duration'\<close> holds a finite number. An infinity or NaN as the maximum needs a
  speed that is zero; the source stores it and goes on, the model stops there with the
  error \<open>NotFinite\<close>, and every statement below about \<^verbatim>\<open>reset_\<close> is for speeds that are
  not zero.
\<close>

definition reset' ::
  "tf_library \<Rightarrow> pose \<Rightarrow> pose \<Rightarrow> real \<Rightarrow> int \<Rightarrow> LocalTarget \<Rightarrow> num_error + LocalTarget" where
  "reset' lib eef_target1 eef_target2 now global_target_id st =
     (let st1 = st\<lparr>global_target_id' := global_target_id, from' := pose' st\<rparr>;
          st2 = st1\<lparr>to' := (if global_target_id' st1 = 1 then eef_target1 else eef_target2),
                     start_time' := now\<rparr>;
          d_pose = dPose_geom lib (to' st2) (from' st2);
          position_dist = sqrt (px (position d_pose) * px (position d_pose) +
                                py (position d_pose) * py (position d_pose) +
                                pz (position d_pose) * pz (position d_pose));
          position_time = ieee_div position_dist (linear_vel' st2);
          quat_angle = getAngleShortestPath lib (orientation d_pose);
          quat_time = ieee_div quat_angle (dquat_rot_vel' st2);
          max_time = (if xdouble_less position_time quat_time then quat_time
                      else position_time)
      in case max_time of
           Finite duration \<Rightarrow> Inr (st2\<lparr>expected_duration' := duration\<rparr>)
         | _ \<Rightarrow> Inl NotFinite)"

text \<open>
  The remainder \<^verbatim>\<open>%\<close> of C++ on \<^verbatim>\<open>int\<close>, which truncates towards zero.
\<close>

definition c_rem :: "int \<Rightarrow> int \<Rightarrow> int" where
  "c_rem a b = sgn a * (\<bar>a\<bar> mod \<bar>b\<bar>)"

text \<open>
  \<^verbatim>\<open>LocalTarget::updatePose\<close> (lines 429 to 446). \<open>check_arrival\<close> is its first statement
  (line 432) and \<open>interpolate\<close> the rest (lines 434 to 445); \<open>now_reset\<close> is the reading of
  the clock inside \<^verbatim>\<open>reset_\<close> and \<open>now\<close> the reading of line 434. The quotient of line 435
  is a division of doubles, with no test of the divisor: on a duration of zero it is
  \<open>+inf\<close> for a positive elapsed time, which line 436 replaces by \<open>1.0\<close>, and NaN for an
  elapsed time of zero, which the comparison of line 436 leaves as it is. With a fraction
  that is NaN or \<open>-inf\<close> no component of the position that lines 438 to 440 compute is a
  finite number; the result is the error \<open>NotFinite\<close> there.
\<close>

definition check_arrival ::
  "tf_library \<Rightarrow> pose \<Rightarrow> pose \<Rightarrow> real \<Rightarrow> LocalTarget \<Rightarrow> num_error + LocalTarget" where
  "check_arrival lib eef_target1 eef_target2 now_reset st =
     (if isClose' st
      then reset' lib eef_target1 eef_target2 now_reset (c_rem (global_target_id' st + 1) 2) st
      else Inr st)"

definition interpolate :: "tf_library \<Rightarrow> real \<Rightarrow> LocalTarget \<Rightarrow> num_error + LocalTarget" where
  "interpolate lib now st =
     (let time_elapsed = now - start_time' st;
          ratio = ieee_div time_elapsed (expected_duration' st);
          slerp_t = (if xdouble_less (Finite 1.0) ratio then Finite 1.0 else ratio)
      in case slerp_t of
           Finite t \<Rightarrow>
             (let new_position =
                    \<lparr>px = (px (position (to' st)) - px (position (from' st))) * t
                            + px (position (from' st)),
                     py = (py (position (to' st)) - py (position (from' st))) * t
                            + py (position (from' st)),
                     pz = (pz (position (to' st)) - pz (position (from' st))) * t
                            + pz (position (from' st))\<rparr>;
                  q1 = orientation (from' st);
                  q2 = orientation (to' st);
                  q_slerp = slerp lib q1 q2 t
              in Inr (st\<lparr>pose' := \<lparr>position = new_position, orientation = q_slerp\<rparr>\<rparr>))
         | _ \<Rightarrow> Inl NotFinite)"

definition updatePose ::
  "tf_library \<Rightarrow> pose \<Rightarrow> pose \<Rightarrow> real \<Rightarrow> real \<Rightarrow> LocalTarget \<Rightarrow> num_error + LocalTarget" where
  "updatePose lib eef_target1 eef_target2 now_reset now st =
     (case check_arrival lib eef_target1 eef_target2 now_reset st of
        Inl e \<Rightarrow> Inl e
      | Inr st1 \<Rightarrow> interpolate lib now st1)"

text \<open>
  The constructor (lines 419 to 424). It waits until the waypoints are initialised, which
  \<^verbatim>\<open>main\<close> has done before it constructs the object (line 560), and calls \<^verbatim>\<open>reset_(1)\<close>.
  The fields that the constructor leaves uninitialised are written by \<^verbatim>\<open>reset_\<close> before
  they are read; the record holds \<open>pose\<close> and \<open>0\<close> there.
\<close>

definition LocalTarget_init ::
  "tf_library \<Rightarrow> pose \<Rightarrow> pose \<Rightarrow> real \<Rightarrow> pose \<Rightarrow> real \<Rightarrow> real \<Rightarrow> num_error + LocalTarget" where
  "LocalTarget_init lib eef_target1 eef_target2 now pose linear_vel dquat_rot_vel =
     reset' lib eef_target1 eef_target2 now 1
       \<lparr>linear_vel' = linear_vel, dquat_rot_vel' = dquat_rot_vel, global_target_id' = 0,
        from' = pose, to' = pose, start_time' = 0, expected_duration' = 0, pose' = pose\<rparr>"

text \<open>
  The calls of \<^verbatim>\<open>local_target.updatePose()\<close> by the loop of \<^verbatim>\<open>main\<close> (line 621), one for each
  tick: a tick is the value of the two waypoints and the two readings of the clock at that
  call. The run stops at the first tick whose result is not finite.
\<close>

fun run_updates ::
  "tf_library \<Rightarrow> (pose \<times> pose \<times> real \<times> real) list \<Rightarrow> LocalTarget \<Rightarrow> num_error + LocalTarget" where
  "run_updates lib [] st = Inr st"
| "run_updates lib ((eef_target1, eef_target2, now_reset, now) # ticks) st =
     (case updatePose lib eef_target1 eef_target2 now_reset now st of
        Inl e \<Rightarrow> Inl e
      | Inr st' \<Rightarrow> run_updates lib ticks st')"

section \<open>An instance of the tf library\<close>

text \<open>
  The interpolation of \<^verbatim>\<open>tf2::Quaternion::slerp\<close>, which follows the shorter arc: where the
  dot product of the two quaternions is negative it interpolates towards the opposite of
  the second one. The relative transform of two poses with unit quaternions, in quaternion
  algebra, and the rotation angle \<open>2 acos w\<close>. They are the library at the concrete inputs
  below.
\<close>

definition quat_dot :: "quaternion \<Rightarrow> quaternion \<Rightarrow> real" where
  "quat_dot a b = qx a * qx b + qy a * qy b + qz a * qz b + qw a * qw b"

definition quat_neg :: "quaternion \<Rightarrow> quaternion" where
  "quat_neg q = \<lparr>qx = - qx q, qy = - qy q, qz = - qz q, qw = - qw q\<rparr>"

definition quat_conj :: "quaternion \<Rightarrow> quaternion" where
  "quat_conj q = \<lparr>qx = - qx q, qy = - qy q, qz = - qz q, qw = qw q\<rparr>"

definition quat_mult :: "quaternion \<Rightarrow> quaternion \<Rightarrow> quaternion" where
  "quat_mult a b =
     \<lparr>qx = qw a * qx b + qx a * qw b + qy a * qz b - qz a * qy b,
      qy = qw a * qy b + qy a * qw b + qz a * qx b - qx a * qz b,
      qz = qw a * qz b + qz a * qw b + qx a * qy b - qy a * qx b,
      qw = qw a * qw b - qx a * qx b - qy a * qy b - qz a * qz b\<rparr>"

definition tf2_angleShortestPath :: "quaternion \<Rightarrow> quaternion \<Rightarrow> real" where
  "tf2_angleShortestPath a b =
     (let s = sqrt (quat_dot a a * quat_dot b b)
      in if quat_dot a b < 0 then arccos (quat_dot a (quat_neg b) / s) * 2
         else arccos (quat_dot a b / s) * 2)"

definition tf2_slerp :: "quaternion \<Rightarrow> quaternion \<Rightarrow> real \<Rightarrow> quaternion" where
  "tf2_slerp a b t =
     (let theta = tf2_angleShortestPath a b / 2
      in if theta \<noteq> 0 then
           (let d = 1 / sin theta;
                s0 = sin ((1 - t) * theta);
                s1 = sin (t * theta);
                b' = (if quat_dot a b < 0 then quat_neg b else b)
            in \<lparr>qx = (qx a * s0 + qx b' * s1) * d,
                qy = (qy a * s0 + qy b' * s1) * d,
                qz = (qz a * s0 + qz b' * s1) * d,
                qw = (qw a * s0 + qw b' * s1) * d\<rparr>)
         else a)"

definition unit_relative_transform :: "pose \<Rightarrow> pose \<Rightarrow> pose" where
  "unit_relative_transform target ref =
     (let c = quat_conj (orientation ref);
          d = \<lparr>qx = px (position target) - px (position ref),
               qy = py (position target) - py (position ref),
               qz = pz (position target) - pz (position ref),
               qw = 0\<rparr>;
          r = quat_mult (quat_mult c d) (orientation ref)
      in \<lparr>position = \<lparr>px = qx r, py = qy r, pz = qz r\<rparr>,
          orientation = quat_mult c (orientation target)\<rparr>)"

definition tf_instance :: tf_library where
  "tf_instance =
     \<lparr>relative_transform = unit_relative_transform,
      getAngleShortestPath = (\<lambda>q. 2 * arccos (qw q)),
      slerp = tf2_slerp\<rparr>"

section \<open>The logarithm of a rigid transform\<close>

text \<open>
  Modelled from the spec: \<^verbatim>\<open>SE3::log\<close>, which \<^verbatim>\<open>main\<close> calls at line 632, is defined in the
  header \<^verbatim>\<open>kinematics_demo/se3.hpp\<close>, which is not among the sources; the source file holds
  only a commented sketch of it (\<^verbatim>\<open>SE3::matLog\<close>, lines 193 to 225). The definition follows
  section 4.1 of the specification. \<open>R\<close> is the rotation part and \<open>p\<close> the translation part
  of the transform; the twist is the pair of its angular and its linear part. The angle
  is \<open>\<theta> = acos (clamp ((trace R - 1) / 2, -1, 1))\<close>, and \<open>\<theta>\<close> is approximately zero when its
  absolute value is at most the tolerance \<open>tol\<close>. Where \<open>\<theta>\<close> is not approximately zero the
  twist is the one of the two rotating branches of the specification, the parameter
  \<open>rotating\<close>.
\<close>

type_synonym vec3 = "real \<times> real \<times> real"
type_synonym mat3 = "vec3 \<times> vec3 \<times> vec3"

definition trace3 :: "mat3 \<Rightarrow> real" where
  "trace3 R = (case R of ((a, _, _), (_, b, _), (_, _, c)) \<Rightarrow> a + b + c)"

definition norm3 :: "vec3 \<Rightarrow> real" where
  "norm3 p = (case p of (x, y, z) \<Rightarrow> sqrt (x * x + y * y + z * z))"

definition scale3 :: "real \<Rightarrow> vec3 \<Rightarrow> vec3" where
  "scale3 c p = (case p of (x, y, z) \<Rightarrow> (c * x, c * y, c * z))"

definition rotation_angle :: "mat3 \<Rightarrow> real" where
  "rotation_angle R = arccos (max (- 1) (min 1 ((trace3 R - 1) / 2)))"

definition se3_log ::
  "real \<Rightarrow> (mat3 \<Rightarrow> vec3 \<Rightarrow> real \<Rightarrow> vec3 \<times> vec3) \<Rightarrow> mat3 \<Rightarrow> vec3 \<Rightarrow> vec3 \<times> vec3" where
  "se3_log tol rotating R p =
     (let theta = rotation_angle R in
      if \<bar>theta\<bar> \<le> tol
      then ((0, 0, 0), if p = (0, 0, 0) then (0, 0, 0) else scale3 (1 / norm3 p) p)
      else rotating R p theta)"

section \<open>Shapes of the matrix operations\<close>

lemma is_mat_cols: "is_mat m n A \<Longrightarrow> 0 < m \<Longrightarrow> mat_cols A = n"
  by (cases A) (auto simp: is_mat_def mat_cols_def)

lemma is_mat_rows: "is_mat m n A \<Longrightarrow> mat_rows A = m"
  by (simp add: is_mat_def mat_rows_def)

lemma is_mat_transpose: "is_mat m n A \<Longrightarrow> 0 < m \<Longrightarrow> is_mat n m (mat_transpose A)"
  using is_mat_cols [of m n A]
  by (simp add: is_mat_def mat_transpose_def mat_col_def list_all_iff)

lemma is_mat_mult: "is_mat m k A \<Longrightarrow> is_mat k n B \<Longrightarrow> 0 < k \<Longrightarrow> is_mat m n (mat_mult A B)"
  using is_mat_cols [of k n B]
  by (simp add: is_mat_def mat_mult_def list_all_iff)

lemma is_mat_add: "is_mat m n A \<Longrightarrow> is_mat m n B \<Longrightarrow> is_mat m n (mat_add A B)"
  by (auto simp: is_mat_def mat_add_def list_all_iff dest!: set_zip_leftD set_zip_rightD
      elim!: in_set_zipE)

lemma is_mat_scale: "is_mat m n A \<Longrightarrow> is_mat m n (mat_scale c A)"
  by (simp add: is_mat_def mat_scale_def list_all_iff)

lemma is_mat_identity: "is_mat n n (mat_identity n)"
  by (simp add: is_mat_def mat_identity_def list_all_iff)

section \<open>The clamping loop\<close>

lemma clamp_delta_bound: "0 \<le> dm \<Longrightarrow> \<bar>clamp_delta dm d\<bar> \<le> dm"
  by (auto simp: clamp_delta_def)

lemma joint_update_loop_inv:
  "length d_theta = length joint_position \<Longrightarrow> i \<le> length joint_position \<Longrightarrow>
   joint_update_loop dm i joint_position d_theta =
     Inr (take i joint_position @ map2 (+) (drop i joint_position) (map (clamp_delta dm) (drop i d_theta)),
          take i d_theta @ map (clamp_delta dm) (drop i d_theta))"
proof (induction dm i joint_position d_theta rule: joint_update_loop.induct)
  case (1 dm i joint_position d_theta)
  show ?case
  proof (cases "i < length joint_position")
    case True
    then have lt: "i < length d_theta" using "1.prems" by simp
    let ?d = "clamp_delta dm (d_theta ! i)"
    have ih: "joint_update_loop dm (Suc i) (joint_position[i := joint_position ! i + ?d]) (d_theta[i := ?d]) =
      Inr (take (Suc i) (joint_position[i := joint_position ! i + ?d]) @
             map2 (+) (drop (Suc i) (joint_position[i := joint_position ! i + ?d]))
               (map (clamp_delta dm) (drop (Suc i) (d_theta[i := ?d]))),
           take (Suc i) (d_theta[i := ?d]) @ map (clamp_delta dm) (drop (Suc i) (d_theta[i := ?d])))"
      using "1.IH" [OF True lt refl] "1.prems" True by simp
    have p: "drop i joint_position = joint_position ! i # drop (Suc i) joint_position"
      using True by (simp add: Cons_nth_drop_Suc)
    have d: "drop i d_theta = d_theta ! i # drop (Suc i) d_theta"
      using lt by (simp add: Cons_nth_drop_Suc)
    have tp: "take (Suc i) (joint_position[i := joint_position ! i + ?d]) = take i joint_position @ [joint_position ! i + ?d]"
      using True by (simp add: take_Suc_conv_app_nth)
    have td: "take (Suc i) (d_theta[i := ?d]) = take i d_theta @ [?d]"
      using lt by (simp add: take_Suc_conv_app_nth)
    show ?thesis
      by (subst joint_update_loop.simps) (simp add: True lt ih p d tp td Let_def)
  next
    case False
    then show ?thesis using "1.prems"
      by (subst joint_update_loop.simps) simp
  qed
qed

lemma dmax_nonneg: "0 \<le> dmax"
  by (simp add: dmax_def)

text \<open>
  Claim C5. Whatever the solver returns, the loop of lines 657 to 665 replaces every
  component of \<open>d_theta\<close> by its clamped value, whose absolute value is at most the largest
  step of one tick \<open>dmax\<close>, and adds exactly that clamped value to the joint position of the
  same index. \<open>d_theta\<close> has one component for each joint.
\<close>

theorem clamp_and_integrate:
  assumes "length d_theta = length joint_position"
  shows "joint_update_loop dmax 0 joint_position d_theta =
           Inr (map2 (+) joint_position (map (clamp_delta dmax) d_theta),
                map (clamp_delta dmax) d_theta)
         \<and> list_all (\<lambda>d. \<bar>d\<bar> \<le> dmax) (map (clamp_delta dmax) d_theta)"
proof
  show "joint_update_loop dmax 0 joint_position d_theta =
           Inr (map2 (+) joint_position (map (clamp_delta dmax) d_theta),
                map (clamp_delta dmax) d_theta)"
    using joint_update_loop_inv [OF assms, of 0 dmax] by simp
  show "list_all (\<lambda>d. \<bar>d\<bar> \<le> dmax) (map (clamp_delta dmax) d_theta)"
    by (simp add: list_all_iff clamp_delta_bound dmax_nonneg)
qed

theorem clamp_and_integrate_witness:
  "joint_update_loop dmax 0 [0, 1/2, 2] [1, - 1, 1/1000] =
     Inr ([pi / 180, 1/2 - pi / 180, 2 + 1/1000], [pi / 180, - (pi / 180), 1/1000])
   \<and> \<bar>pi / 180\<bar> \<le> dmax \<and> \<bar>- (pi / 180)\<bar> \<le> dmax \<and> \<bar>1/1000 :: real\<bar> \<le> dmax"
proof -
  have a: "clamp_delta dmax 1 = pi / 180"
    using pi_less_4 by (simp add: clamp_delta_def dmax_def)
  have b: "clamp_delta dmax (- 1) = - (pi / 180)"
    using pi_less_4 pi_ge_two by (simp add: clamp_delta_def dmax_def)
  have c: "clamp_delta dmax (1/1000) = 1/1000"
    using pi_ge_two by (simp add: clamp_delta_def dmax_def)
  have len: "length [1, - 1, 1/1000 :: real] = length [0, 1/2, 2 :: real]" by simp
  show ?thesis
    using clamp_and_integrate [OF len] by (simp add: a b c)
qed

section \<open>Properties of the solver\<close>

lemmas gauss_jordan_eval = gauss_jordan_inverse_def find_pivot_def swap_rows_def
  eliminate_column_def mat_identity_def Let_def

lemmas mat_eval = mat_transpose_def mat_mult_def mat_add_def mat_scale_def mat_col_def
  mat_cols_def mat_rows_def mat_vec_def mat_diagonal_def dot_def

lemma is_mat_mult_general:
  "is_mat m k A \<Longrightarrow> is_mat k n B \<Longrightarrow> 0 < k \<or> m = 0 \<Longrightarrow> is_mat m n (mat_mult A B)"
  using is_mat_mult [of m k A n B]
  by (cases "0 < k") (auto simp: is_mat_def mat_mult_def)

lemma without_SVD_damped:
  "calculateDampedPseudoInverse_without_SVD minv jacb eps lambda =
     (case minv (damped_matrix jacb lambda) of
        None \<Rightarrow> Inl SingularMatrix
      | Some L \<Rightarrow> Inr (if mat_rows jacb \<ge> mat_cols jacb
                        then mat_mult L (mat_transpose jacb)
                        else mat_mult (mat_transpose jacb) L))"
  by (simp add: calculateDampedPseudoInverse_without_SVD_def damped_matrix_def Let_def
      split: option.splits)

lemma inv_Sv_entry_cases:
  "inv_Sv_entry eps lambda s =
     (if filter_divisor eps lambda s = 0 then Inl DivisionByZero
      else Inr (filtered_reciprocal eps lambda s))"
  by (simp add: inv_Sv_entry_def filter_divisor_def filtered_reciprocal_def fdiv_def power2_eq_square)

lemma inv_Sv_loop_result:
  "length inv_Sv = length Sv \<Longrightarrow> i \<le> length Sv \<Longrightarrow>
   inv_Sv_loop eps lambda Sv i inv_Sv =
     (if list_all (\<lambda>s. filter_divisor eps lambda s \<noteq> 0) (drop i Sv)
      then Inr (take i inv_Sv @ map (filtered_reciprocal eps lambda) (drop i Sv))
      else Inl DivisionByZero)"
proof (induction eps lambda Sv i inv_Sv rule: inv_Sv_loop.induct)
  case (1 eps lambda Sv i inv_Sv)
  show ?case
  proof (cases "i < length Sv")
    case False
    then show ?thesis using "1.prems"
      by (subst inv_Sv_loop.simps) simp
  next
    case True
    have d: "drop i Sv = Sv ! i # drop (Suc i) Sv"
      using True by (simp add: Cons_nth_drop_Suc)
    show ?thesis
    proof (cases "filter_divisor eps lambda (Sv ! i) = 0")
      case zero: True
      then show ?thesis
        by (subst inv_Sv_loop.simps) (simp add: True inv_Sv_entry_cases d)
    next
      case nz: False
      let ?r = "filtered_reciprocal eps lambda (Sv ! i)"
      have e: "inv_Sv_entry eps lambda (Sv ! i) = Inr ?r"
        using nz by (simp add: inv_Sv_entry_cases)
      have ih: "inv_Sv_loop eps lambda Sv (Suc i) (inv_Sv[i := ?r]) =
        (if list_all (\<lambda>s. filter_divisor eps lambda s \<noteq> 0) (drop (Suc i) Sv)
         then Inr (take (Suc i) (inv_Sv[i := ?r]) @
                   map (filtered_reciprocal eps lambda) (drop (Suc i) Sv))
         else Inl DivisionByZero)"
        using "1.IH" [OF True e] "1.prems" True by simp
      have t: "take (Suc i) (inv_Sv[i := ?r]) = take i inv_Sv @ [?r]"
        using True "1.prems" by (simp add: take_Suc_conv_app_nth)
      show ?thesis
        by (subst inv_Sv_loop.simps) (simp add: True e ih t d nz)
    qed
  qed
qed

lemma with_SVD_result:
  assumes "svd jacb = (U, Sv, V)"
  shows "calculateDampedPseudoInverse_with_SVD svd jacb eps lambda =
     (if list_all (\<lambda>s. filter_divisor eps lambda s \<noteq> 0) Sv
      then Inr (mat_mult (mat_mult V (mat_diagonal (map (filtered_reciprocal eps lambda) Sv)))
                  (mat_transpose U))
      else Inl DivisionByZero)"
  using assms inv_Sv_loop_result [of "replicate (length Sv) 0" Sv 0 eps lambda]
  by (simp add: calculateDampedPseudoInverse_with_SVD_def Let_def)

text \<open>
  Claim C2. With the decomposition \<open>(U, Sv, V)\<close> of the Jacobian and every \<open>\<epsilon>\<close> and \<open>\<lambda>\<close>, the
  loop inverts each singular value \<open>\<sigma>\<close> as \<open>1 / \<sigma>\<close> when \<open>\<bar>\<sigma>\<bar> > \<epsilon>\<close> and as
  \<open>\<sigma> / (\<sigma>\<^sup>2 + \<lambda>\<^sup>2)\<close> otherwise, and the routine returns \<open>V diag(inv_Sv) U\<^sup>T\<close>; it divides by
  zero exactly when one of these divisors is zero. A value above the threshold is
  inverted exactly, whatever \<open>\<lambda>\<close> is; only the others are damped.
\<close>

theorem with_SVD_filter:
  assumes "svd jacb = (U, Sv, V)"
  shows "calculateDampedPseudoInverse_with_SVD svd jacb eps lambda =
     (if list_all (\<lambda>s. filter_divisor eps lambda s \<noteq> 0) Sv
      then Inr (mat_mult (mat_mult V (mat_diagonal (map (filtered_reciprocal eps lambda) Sv)))
                  (mat_transpose U))
      else Inl DivisionByZero)
   \<and> (\<forall>s. \<bar>s\<bar> > eps \<longrightarrow> filtered_reciprocal eps lambda s = 1 / s)
   \<and> (\<forall>s. \<not> \<bar>s\<bar> > eps \<longrightarrow> filtered_reciprocal eps lambda s = s / (s\<^sup>2 + lambda\<^sup>2))
   \<and> (\<forall>s. \<bar>s\<bar> > eps \<and> s \<noteq> 0 \<longrightarrow> s * filtered_reciprocal eps lambda s = 1)"
  using with_SVD_result [of svd jacb U Sv V eps lambda] assms
  by (simp add: filtered_reciprocal_def)

theorem with_SVD_filter_witness:
  "calculateDampedPseudoInverse_with_SVD
     (\<lambda>J. ([[1, 0], [0, 1], [0, 0], [0, 0], [0, 0], [0, 0]], [3, 1/2], [[1, 0], [0, 1]]))
     [[3, 0], [0, 1/2], [0, 0], [0, 0], [0, 0], [0, 0]] 1 (1/2)
   = Inr [[1/3, 0, 0, 0, 0, 0], [0, 1, 0, 0, 0, 0]]"
proof -
  let ?U = "[[1, 0], [0, 1], [0, 0], [0, 0], [0, 0], [0, 0 :: real]]"
  let ?V = "[[1, 0], [0, 1 :: real]]"
  let ?svd = "\<lambda>J :: mat. (?U, [3, 1/2 :: real], ?V)"
  have s: "?svd [[3, 0], [0, 1/2], [0, 0], [0, 0], [0, 0], [0, 0]] = (?U, [3, 1/2], ?V)"
    by simp
  have d: "map (filtered_reciprocal 1 (1/2)) [3, 1/2] = [1/3, 1]"
    by (simp add: filtered_reciprocal_def power2_eq_square)
  have ok: "list_all (\<lambda>s. filter_divisor 1 (1/2) s \<noteq> 0) [3, 1/2]"
    by (simp add: filter_divisor_def power2_eq_square)
  have m: "mat_mult (mat_mult ?V (mat_diagonal [1/3, 1])) (mat_transpose ?U)
             = [[1/3, 0, 0, 0, 0, 0], [0, 1, 0, 0, 0, 0]]"
    by (simp add: mat_eval eval_nat_numeral)
  show ?thesis
    unfolding conjunct1 [OF with_SVD_filter
        [of ?svd "[[3, 0], [0, 1/2], [0, 0], [0, 0], [0, 0], [0, 0]]" ?U "[3, 1/2]" ?V 1 "1/2",
         OF s]]
    by (simp only: ok d m if_True)
qed

section \<open>Damping and rank deficiency\<close>

subsection \<open>Linear algebra on lists\<close>

lemma dot_sum: "length u = length v \<Longrightarrow> dot u v = (\<Sum>i<length u. u ! i * v ! i)"
  by (simp add: dot_def sum_list_sum_nth atLeast0LessThan)


lemma is_mat_row: "is_mat m n A \<Longrightarrow> i < m \<Longrightarrow> length (A ! i) = n"
  by (simp add: is_mat_def list_all_length)



lemma mat_col_nth: "i < length A \<Longrightarrow> mat_col A j ! i = A ! i ! j"
  by (simp add: mat_col_def)


lemma mat_mult_nth:
  "is_mat m k A \<Longrightarrow> is_mat k n B \<Longrightarrow> 0 < k \<Longrightarrow> i < m \<Longrightarrow> j < n \<Longrightarrow>
     mat_mult A B ! i ! j = dot (A ! i) (mat_col B j)"
  using is_mat_cols [of k n B] by (simp add: mat_mult_def is_mat_def)



















subsection \<open>Both strategies on a rank-deficient Jacobian\<close>






section \<open>The damped normal equations\<close>

lemma mat_mult_length: "length (mat_mult A B) = length A"
  by (simp add: mat_mult_def)

lemma mat_mult_assoc:
  assumes A: "is_mat m k A" and B: "is_mat k l B" and C: "is_mat l n C"
    and k: "0 < k" and l: "0 < l"
  shows "mat_mult (mat_mult A B) C = mat_mult A (mat_mult B C)"
proof (rule nth_equalityI)
  have AB: "is_mat m l (mat_mult A B)" using A B k by (rule is_mat_mult)
  have BC: "is_mat k n (mat_mult B C)" using B C l by (rule is_mat_mult)
  have L: "is_mat m n (mat_mult (mat_mult A B) C)" using AB C l by (rule is_mat_mult)
  have R: "is_mat m n (mat_mult A (mat_mult B C))" using A BC k by (rule is_mat_mult)
  have lA: "length A = m" and lB: "length B = k" and lC: "length C = l"
    using A B C by (simp_all add: is_mat_def)
  show "length (mat_mult (mat_mult A B) C) = length (mat_mult A (mat_mult B C))"
    by (simp add: mat_mult_length)
  fix i assume "i < length (mat_mult (mat_mult A B) C)"
  then have i: "i < m" using lA by (simp add: mat_mult_length)
  show "mat_mult (mat_mult A B) C ! i = mat_mult A (mat_mult B C) ! i"
  proof (rule nth_equalityI)
    show "length (mat_mult (mat_mult A B) C ! i) = length (mat_mult A (mat_mult B C) ! i)"
      using is_mat_row [OF L i] is_mat_row [OF R i] by simp
    fix j assume "j < length (mat_mult (mat_mult A B) C ! i)"
    then have j: "j < n" using is_mat_row [OF L i] by simp
    have rA: "length (A ! i) = k" using A i by (rule is_mat_row)
    have rAB: "length (mat_mult A B ! i) = l" using AB i by (rule is_mat_row)
    have "mat_mult (mat_mult A B) C ! i ! j = (\<Sum>b<l. (\<Sum>a<k. A ! i ! a * B ! a ! b) * C ! b ! j)"
      using rAB lC rA lB
      by (simp add: mat_mult_nth [OF AB C l i j] dot_sum mat_col_def mat_mult_nth [OF A B k i]
          mat_col_nth)
    also have "\<dots> = (\<Sum>b<l. \<Sum>a<k. A ! i ! a * (B ! a ! b * C ! b ! j))"
      by (simp add: sum_distrib_right mult.assoc)
    also have "\<dots> = (\<Sum>a<k. \<Sum>b<l. A ! i ! a * (B ! a ! b * C ! b ! j))"
      by (rule sum.swap)
    also have "\<dots> = (\<Sum>a<k. A ! i ! a * (\<Sum>b<l. B ! a ! b * C ! b ! j))"
      by (simp add: sum_distrib_left)
    also have "\<dots> = (\<Sum>a<k. A ! i ! a * mat_mult B C ! a ! j)"
      using lC is_mat_row [OF B]
      by (simp add: mat_mult_nth [OF B C l _ j] dot_sum mat_col_def)
    also have "\<dots> = mat_mult A (mat_mult B C) ! i ! j"
      using rA BC
      by (simp add: mat_mult_nth [OF A BC k i j] dot_sum mat_col_def is_mat_def mat_mult_length)
    finally show "mat_mult (mat_mult A B) C ! i ! j = mat_mult A (mat_mult B C) ! i ! j" .
  qed
qed

lemma mat_identity_nth: "i < n \<Longrightarrow> j < n \<Longrightarrow> mat_identity n ! i ! j = (if i = j then 1 else 0)"
  by (simp add: mat_identity_def)

lemma mat_mult_identity_left:
  assumes A: "is_mat m n A" and m: "0 < m"
  shows "mat_mult (mat_identity m) A = A"
proof (rule nth_equalityI)
  have I: "is_mat m m (mat_identity m)" by (rule is_mat_identity)
  have P: "is_mat m n (mat_mult (mat_identity m) A)" using I A m by (rule is_mat_mult)
  have lA: "length A = m" using A by (simp add: is_mat_def)
  show "length (mat_mult (mat_identity m) A) = length A"
    using P lA by (simp add: is_mat_def)
  fix i assume "i < length (mat_mult (mat_identity m) A)"
  then have i: "i < m" using P by (simp add: is_mat_def)
  show "mat_mult (mat_identity m) A ! i = A ! i"
  proof (rule nth_equalityI)
    show "length (mat_mult (mat_identity m) A ! i) = length (A ! i)"
      using is_mat_row [OF P i] is_mat_row [OF A i] by simp
    fix j assume "j < length (mat_mult (mat_identity m) A ! i)"
    then have j: "j < n" using is_mat_row [OF P i] by simp
    have "mat_mult (mat_identity m) A ! i ! j = (\<Sum>a<m. (if i = a then 1 else 0) * A ! a ! j)"
      using i lA is_mat_row [OF I i]
      by (simp add: mat_mult_nth [OF I A m i j] dot_sum mat_col_def mat_identity_nth)
    also have "\<dots> = (\<Sum>a<m. if a = i then A ! a ! j else 0)"
      by (rule sum.cong) auto
    also have "\<dots> = A ! i ! j" using i by (simp add: sum.delta)
    finally show "mat_mult (mat_identity m) A ! i ! j = A ! i ! j" .
  qed
qed

lemma mat_mult_identity_right:
  assumes A: "is_mat m n A" and n: "0 < n"
  shows "mat_mult A (mat_identity n) = A"
proof (rule nth_equalityI)
  have I: "is_mat n n (mat_identity n)" by (rule is_mat_identity)
  have P: "is_mat m n (mat_mult A (mat_identity n))" using A I n by (rule is_mat_mult)
  have lA: "length A = m" using A by (simp add: is_mat_def)
  show "length (mat_mult A (mat_identity n)) = length A"
    by (simp add: mat_mult_length)
  fix i assume "i < length (mat_mult A (mat_identity n))"
  then have i: "i < m" using lA by (simp add: mat_mult_length)
  show "mat_mult A (mat_identity n) ! i = A ! i"
  proof (rule nth_equalityI)
    show "length (mat_mult A (mat_identity n) ! i) = length (A ! i)"
      using is_mat_row [OF P i] is_mat_row [OF A i] by simp
    fix j assume "j < length (mat_mult A (mat_identity n) ! i)"
    then have j: "j < n" using is_mat_row [OF P i] by simp
    have lI: "length (mat_identity n) = n" by (simp add: mat_identity_def)
    have "mat_mult A (mat_identity n) ! i ! j = (\<Sum>a<n. A ! i ! a * (if a = j then 1 else 0))"
      using i is_mat_row [OF A i] j lI
      by (simp add: mat_mult_nth [OF A I n i j] dot_sum mat_col_def mat_identity_nth)
    also have "\<dots> = (\<Sum>a<n. if a = j then A ! i ! a else 0)"
      by (rule sum.cong) auto
    also have "\<dots> = A ! i ! j" using j by (simp add: sum.delta)
    finally show "mat_mult A (mat_identity n) ! i ! j = A ! i ! j" .
  qed
qed

text \<open>
  Claim C1. For a Jacobian \<open>J\<close> with 6 rows and \<open>N\<close> columns and every \<open>\<lambda>\<close>, the routine
  inverts \<open>J\<^sup>T J + \<lambda>\<^sup>2 I\<close> when \<open>N \<le> 6\<close> (at least as many rows as columns) and
  \<open>J J\<^sup>T + \<lambda>\<^sup>2 I\<close> otherwise, and with \<open>L\<close> the matrix that the inverse routine returns, of
  the shape of its argument, it returns \<open>L J\<^sup>T\<close> in the first case and \<open>J\<^sup>T L\<close> in the second.
  In both cases the result has \<open>N\<close> rows and 6 columns. Where \<open>L\<close> is the inverse of its
  argument, the result \<open>P\<close> solves the damped normal equations:
  \<open>(J\<^sup>T J + \<lambda>\<^sup>2 I) P = J\<^sup>T\<close> in the first case, \<open>P (J J\<^sup>T + \<lambda>\<^sup>2 I) = J\<^sup>T\<close> in the second.
\<close>

theorem without_SVD_formula_and_shape:
  assumes J: "is_mat 6 N J"
    and inv: "minv (damped_matrix J lambda) = Some L"
    and L: "is_mat (min 6 N) (min 6 N) L"
  shows "damped_matrix J lambda =
           (if N \<le> 6
            then mat_add (mat_mult (mat_transpose J) J)
                   (mat_scale (lambda * lambda) (mat_identity N))
            else mat_add (mat_mult J (mat_transpose J))
                   (mat_scale (lambda * lambda) (mat_identity 6)))
       \<and> calculateDampedPseudoInverse_without_SVD minv J eps lambda =
           Inr (if N \<le> 6 then mat_mult L (mat_transpose J) else mat_mult (mat_transpose J) L)
       \<and> is_mat N 6 (if N \<le> 6 then mat_mult L (mat_transpose J)
                      else mat_mult (mat_transpose J) L)
       \<and> (mat_mult (damped_matrix J lambda) L = mat_identity (min 6 N)
            \<and> mat_mult L (damped_matrix J lambda) = mat_identity (min 6 N) \<longrightarrow>
          (if N \<le> 6
           then mat_mult (damped_matrix J lambda) (mat_mult L (mat_transpose J)) = mat_transpose J
           else mat_mult (mat_mult (mat_transpose J) L) (damped_matrix J lambda) = mat_transpose J))"
proof -
  have r: "mat_rows J = 6" using J by (rule is_mat_rows)
  have c: "mat_cols J = N" using J by (rule is_mat_cols) simp
  have T: "is_mat N 6 (mat_transpose J)" using J by (rule is_mat_transpose) simp
  have res: "calculateDampedPseudoInverse_without_SVD minv J eps lambda =
           Inr (if N \<le> 6 then mat_mult L (mat_transpose J) else mat_mult (mat_transpose J) L)"
    by (simp add: without_SVD_damped inv r c)
  show ?thesis
  proof (cases "N \<le> 6")
    case True
    let ?A = "mat_add (mat_mult (mat_transpose J) J) (mat_scale (lambda * lambda) (mat_identity N))"
    have D: "damped_matrix J lambda = ?A" using True by (simp add: damped_matrix_def r c)
    have LN: "is_mat N N L" using L True by (simp add: min_def)
    have G: "is_mat N N (mat_mult (mat_transpose J) J)"
      using T J by (rule is_mat_mult) simp
    have A: "is_mat N N ?A"
      using G by (intro is_mat_add is_mat_scale is_mat_identity)
    have P: "is_mat N 6 (mat_mult L (mat_transpose J))"
      using LN T by (rule is_mat_mult_general) auto
    have eq: "mat_mult ?A (mat_mult L (mat_transpose J)) = mat_transpose J"
      if AL: "mat_mult ?A L = mat_identity N"
    proof (cases "N = 0")
      case True
      then have "?A = []" "mat_transpose J = []"
        using A T by (simp_all add: is_mat_def)
      then show ?thesis by (simp add: mat_mult_def)
    next
      case False
      then have N: "0 < N" by simp
      have "mat_mult ?A (mat_mult L (mat_transpose J)) = mat_mult (mat_mult ?A L) (mat_transpose J)"
        using mat_mult_assoc [OF A LN T N N] by simp
      also have "\<dots> = mat_transpose J"
        using mat_mult_identity_left [OF T N] by (simp add: AL)
      finally show ?thesis .
    qed
    show ?thesis using True res P eq by (simp add: D min_def)
  next
    case False
    let ?A = "mat_add (mat_mult J (mat_transpose J)) (mat_scale (lambda * lambda) (mat_identity 6))"
    have N: "0 < N" using False by simp
    have D: "damped_matrix J lambda = ?A" using False by (simp add: damped_matrix_def r c)
    have L6: "is_mat 6 6 L" using L False by (simp add: min_def)
    have G: "is_mat 6 6 (mat_mult J (mat_transpose J))"
      using J T N by (rule is_mat_mult)
    have A: "is_mat 6 6 ?A"
      using G by (intro is_mat_add is_mat_scale is_mat_identity)
    have P: "is_mat N 6 (mat_mult (mat_transpose J) L)"
      using T L6 by (rule is_mat_mult_general) auto
    have eq: "mat_mult (mat_mult (mat_transpose J) L) ?A = mat_transpose J"
      if LA: "mat_mult L ?A = mat_identity 6"
    proof -
      have "mat_mult (mat_mult (mat_transpose J) L) ?A = mat_mult (mat_transpose J) (mat_mult L ?A)"
        by (rule mat_mult_assoc [OF T L6 A]) simp_all
      also have "\<dots> = mat_transpose J"
        using mat_mult_identity_right [OF T, of] by (simp add: LA)
      finally show ?thesis .
    qed
    show ?thesis using False res P eq by (simp add: D min_def)
  qed
qed

theorem without_SVD_formula_and_shape_witness:
  "calculateDampedPseudoInverse_without_SVD gauss_jordan_inverse
       [[1, 1], [0, 1], [0, 0], [0, 0], [0, 0], [0, 0]] 1 1
     = Inr [[2/5, - (1/5), 0, 0, 0, 0], [1/5, 2/5, 0, 0, 0, 0]]
   \<and> is_mat 2 6 [[2/5, - (1/5), 0, 0, 0, 0], [1/5, 2/5, 0, 0, 0, 0 :: real]]
   \<and> mat_mult [[2, 1], [1, 3]] [[2/5, - (1/5), 0, 0, 0, 0], [1/5, 2/5, 0, 0, 0, 0]]
       = [[1, 0, 0, 0, 0, 0], [1, 1, 0, 0, 0, 0]]"
proof -
  let ?J = "[[1, 1], [0, 1], [0, 0], [0, 0], [0, 0], [0, 0 :: real]]"
  let ?L = "[[3/5, - (1/5)], [- (1/5), 2/5 :: real]]"
  have J: "is_mat 6 2 ?J" by (simp add: is_mat_def)
  have A: "damped_matrix ?J 1 = [[2, 1], [1, 3]]"
    by (simp add: damped_matrix_def mat_eval mat_identity_def eval_nat_numeral)
  have G: "gauss_jordan_inverse [[2, 1], [1, 3]] = Some ?L"
    by (simp add: gauss_jordan_eval eval_nat_numeral)
  have inv: "gauss_jordan_inverse (damped_matrix ?J 1) = Some ?L"
    by (simp only: A G)
  have L: "is_mat (min 6 2) (min 6 2) ?L" by (simp add: is_mat_def)
  have Jt: "mat_transpose ?J = [[1, 0, 0, 0, 0, 0], [1, 1, 0, 0, 0, 0]]"
    by (simp add: mat_eval eval_nat_numeral)
  have P: "mat_mult ?L [[1, 0, 0, 0, 0, 0], [1, 1, 0, 0, 0, 0]]
             = [[2/5, - (1/5), 0, 0, 0, 0], [1/5, 2/5, 0, 0, 0, 0]]"
    by (simp add: mat_eval eval_nat_numeral)
  have I1: "mat_mult [[2, 1], [1, 3]] ?L = mat_identity (min 6 2)"
    by (simp add: mat_eval mat_identity_def eval_nat_numeral)
  have I2: "mat_mult ?L [[2, 1], [1, 3]] = mat_identity (min 6 2)"
    by (simp add: mat_eval mat_identity_def eval_nat_numeral)
  have I1': "mat_mult (damped_matrix ?J 1) ?L = mat_identity (min 6 2)"
    by (simp only: A I1)
  have I2': "mat_mult ?L (damped_matrix ?J 1) = mat_identity (min 6 2)"
    by (simp only: A I2)
  note w = without_SVD_formula_and_shape
      [where minv = gauss_jordan_inverse and eps = 1, OF J inv L]
  have r: "calculateDampedPseudoInverse_without_SVD gauss_jordan_inverse ?J 1 1
             = Inr (mat_mult ?L (mat_transpose ?J))"
    using conjunct1 [OF conjunct2 [OF w]] by simp
  have sh: "is_mat 2 6 (mat_mult ?L (mat_transpose ?J))"
    using conjunct1 [OF conjunct2 [OF conjunct2 [OF w]]] by simp
  have ne: "mat_mult (damped_matrix ?J 1) (mat_mult ?L (mat_transpose ?J)) = mat_transpose ?J"
    using conjunct2 [OF conjunct2 [OF conjunct2 [OF w]]] I1' I2' by simp
  from r sh ne show ?thesis
    unfolding A Jt P by simp
qed

section \<open>Properties of the moving target\<close>

lemma ieee_div_nonzero: "b \<noteq> 0 \<Longrightarrow> ieee_div a b = Finite (a / b)"
  by (simp add: ieee_div_def)

lemma ieee_div_zero:
  "ieee_div a 0 = (if 0 < a then PosInf else if a < 0 then NegInf else NaN)"
  by (simp add: ieee_div_def)

lemma reset'_result:
  assumes "linear_vel' st \<noteq> 0" and "dquat_rot_vel' st \<noteq> 0"
  shows "reset' lib eef_target1 eef_target2 now gid st =
     Inr (st\<lparr>global_target_id' := gid, from' := pose' st,
              to' := (if gid = 1 then eef_target1 else eef_target2), start_time' := now,
              expected_duration' :=
                (let d_pose = dPose_geom lib (if gid = 1 then eef_target1 else eef_target2) (pose' st)
                 in max (sqrt (px (position d_pose) * px (position d_pose) +
                               py (position d_pose) * py (position d_pose) +
                               pz (position d_pose) * pz (position d_pose)) / linear_vel' st)
                        (getAngleShortestPath lib (orientation d_pose) / dquat_rot_vel' st))\<rparr>)"
  using assms by (simp add: reset'_def Let_def ieee_div_nonzero max_def)

lemma interpolate_result:
  assumes "expected_duration' st \<noteq> 0"
  shows "interpolate lib now st =
     Inr (st\<lparr>pose' :=
       (let slerp_t = min ((now - start_time' st) / expected_duration' st) 1 in
        \<lparr>position =
           \<lparr>px = (px (position (to' st)) - px (position (from' st))) * slerp_t + px (position (from' st)),
            py = (py (position (to' st)) - py (position (from' st))) * slerp_t + py (position (from' st)),
            pz = (pz (position (to' st)) - pz (position (from' st))) * slerp_t + pz (position (from' st))\<rparr>,
         orientation = slerp lib (orientation (from' st)) (orientation (to' st)) slerp_t\<rparr>)\<rparr>)"
  using assms by (simp add: interpolate_def Let_def ieee_div_nonzero min_def)

lemma interpolate_zero_duration:
  assumes "expected_duration' st = 0"
  shows "interpolate lib now st =
     (if start_time' st < now
      then Inr (st\<lparr>pose' :=
        \<lparr>position =
           \<lparr>px = (px (position (to' st)) - px (position (from' st))) * 1 + px (position (from' st)),
            py = (py (position (to' st)) - py (position (from' st))) * 1 + py (position (from' st)),
            pz = (pz (position (to' st)) - pz (position (from' st))) * 1 + pz (position (from' st))\<rparr>,
         orientation = slerp lib (orientation (from' st)) (orientation (to' st)) 1\<rparr>\<rparr>)
      else Inl NotFinite)"
  using assms by (simp add: interpolate_def Let_def ieee_div_zero)

lemma interpolate_keeps:
  "interpolate lib now st = Inr st' \<Longrightarrow>
     global_target_id' st' = global_target_id' st \<and> to' st' = to' st \<and> from' st' = from' st
     \<and> start_time' st' = start_time' st \<and> expected_duration' st' = expected_duration' st
     \<and> linear_vel' st' = linear_vel' st \<and> dquat_rot_vel' st' = dquat_rot_vel' st"
  by (cases "expected_duration' st = 0")
     (auto simp: interpolate_zero_duration interpolate_result split: if_splits)

lemma c_rem_flip: "g = 0 \<or> g = 1 \<Longrightarrow> c_rem (g + 1) 2 = 1 - g"
  by (auto simp: c_rem_def)

lemma isClose'_iff:
  "isClose' st =
          (\<bar>px (position (pose' st)) - px (position (to' st))\<bar> < 0.01 \<and>
           \<bar>py (position (pose' st)) - py (position (to' st))\<bar> < 0.01 \<and>
           \<bar>pz (position (pose' st)) - pz (position (to' st))\<bar> < 0.01 \<and>
           \<bar>qx (orientation (pose' st)) - qx (orientation (to' st))\<bar> < 0.01 \<and>
           \<bar>qy (orientation (pose' st)) - qy (orientation (to' st))\<bar> < 0.01 \<and>
           \<bar>qz (orientation (pose' st)) - qz (orientation (to' st))\<bar> < 0.01 \<and>
           \<bar>qw (orientation (pose' st)) - qw (orientation (to' st))\<bar> < 0.01)"
  unfolding isClose'_def Let_def by (rule refl)

text \<open>
  Claim C7. One call of \<^verbatim>\<open>updatePose\<close> switches the destination exactly when the pose it
  starts from is within \<open>0.01\<close> of the destination in each of the three components of the
  position and the four components of the quaternion. It then switches once: the
  identifier \<open>i\<close> of the waypoint becomes \<open>1 - i\<close>, the destination becomes the other
  waypoint, and the rest of the call changes neither. With the identifier in \<open>{0, 1}\<close> and
  speeds that are not zero, the check itself always returns.
\<close>

theorem arrival_switch:
  assumes id: "global_target_id' st = 0 \<or> global_target_id' st = 1"
    and lv: "linear_vel' st \<noteq> 0" and rv: "dquat_rot_vel' st \<noteq> 0"
  shows "\<exists>st1. check_arrival lib eef_target1 eef_target2 now_reset st = Inr st1
      \<and> updatePose lib eef_target1 eef_target2 now_reset now st = interpolate lib now st1
      \<and> global_target_id' st1 =
          (if isClose' st then 1 - global_target_id' st else global_target_id' st)
      \<and> to' st1 =
          (if isClose' st then (if global_target_id' st = 0 then eef_target1 else eef_target2)
           else to' st)
      \<and> (\<forall>st'. interpolate lib now st1 = Inr st' \<longrightarrow>
            global_target_id' st' = global_target_id' st1 \<and> to' st' = to' st1)
      \<and> isClose' st =
          (\<bar>px (position (pose' st)) - px (position (to' st))\<bar> < 0.01 \<and>
           \<bar>py (position (pose' st)) - py (position (to' st))\<bar> < 0.01 \<and>
           \<bar>pz (position (pose' st)) - pz (position (to' st))\<bar> < 0.01 \<and>
           \<bar>qx (orientation (pose' st)) - qx (orientation (to' st))\<bar> < 0.01 \<and>
           \<bar>qy (orientation (pose' st)) - qy (orientation (to' st))\<bar> < 0.01 \<and>
           \<bar>qz (orientation (pose' st)) - qz (orientation (to' st))\<bar> < 0.01 \<and>
           \<bar>qw (orientation (pose' st)) - qw (orientation (to' st))\<bar> < 0.01)"
proof -
  define st1 where "st1 =
    (if isClose' st
     then (case reset' lib eef_target1 eef_target2 now_reset (c_rem (global_target_id' st + 1) 2) st
           of Inr s \<Rightarrow> s | Inl e \<Rightarrow> st)
     else st)"
  let ?g = "c_rem (global_target_id' st + 1) 2"
  have g: "?g = 1 - global_target_id' st" using id by (rule c_rem_flip)
  note r = reset'_result [OF lv rv, of lib eef_target1 eef_target2 now_reset]
  have ca: "check_arrival lib eef_target1 eef_target2 now_reset st = Inr st1"
    unfolding check_arrival_def st1_def by (simp add: r)
  have up: "updatePose lib eef_target1 eef_target2 now_reset now st = interpolate lib now st1"
    unfolding updatePose_def by (simp add: ca)
  have gid: "global_target_id' st1 =
          (if isClose' st then 1 - global_target_id' st else global_target_id' st)"
    unfolding st1_def by (simp add: r g)
  have "?g = 1 \<longleftrightarrow> global_target_id' st = 0"
    using g by linarith
  then have to: "to' st1 =
          (if isClose' st then (if global_target_id' st = 0 then eef_target1 else eef_target2)
           else to' st)"
    unfolding st1_def by (simp add: r)
  have keep: "\<forall>st'. interpolate lib now st1 = Inr st' \<longrightarrow>
            global_target_id' st' = global_target_id' st1 \<and> to' st' = to' st1"
    using interpolate_keeps [of lib now st1] by blast
  from ca up gid to keep isClose'_iff [of st] show ?thesis
    by (intro exI [of _ st1] conjI)
qed

theorem arrival_switch_witness:
  "\<exists>st1. check_arrival tf_instance
       \<lparr>position = \<lparr>px = 0, py = 0, pz = 0\<rparr>, orientation = \<lparr>qx = 0, qy = 0, qz = 0, qw = 1\<rparr>\<rparr>
       \<lparr>position = \<lparr>px = 0, py = 0, pz = 1/10\<rparr>, orientation = \<lparr>qx = 0, qy = 0, qz = 0, qw = 1\<rparr>\<rparr>
       7
       \<lparr>linear_vel' = 1/50, dquat_rot_vel' = 1/5, global_target_id' = 1,
        from' = \<lparr>position = \<lparr>px = 0, py = 0, pz = 1/10\<rparr>, orientation = \<lparr>qx = 0, qy = 0, qz = 0, qw = 1\<rparr>\<rparr>,
        to' = \<lparr>position = \<lparr>px = 0, py = 0, pz = 0\<rparr>, orientation = \<lparr>qx = 0, qy = 0, qz = 0, qw = 1\<rparr>\<rparr>,
        start_time' = 0, expected_duration' = 5,
        pose' = \<lparr>position = \<lparr>px = 0, py = 0, pz = 1/1000\<rparr>, orientation = \<lparr>qx = 0, qy = 0, qz = 0, qw = 1\<rparr>\<rparr>\<rparr>
     = Inr st1
     \<and> global_target_id' st1 = 0
     \<and> to' st1 = \<lparr>position = \<lparr>px = 0, py = 0, pz = 1/10\<rparr>, orientation = \<lparr>qx = 0, qy = 0, qz = 0, qw = 1\<rparr>\<rparr>"
  using arrival_switch [of
       "\<lparr>linear_vel' = 1/50, dquat_rot_vel' = 1/5, global_target_id' = 1,
        from' = \<lparr>position = \<lparr>px = 0, py = 0, pz = 1/10\<rparr>, orientation = \<lparr>qx = 0, qy = 0, qz = 0, qw = 1\<rparr>\<rparr>,
        to' = \<lparr>position = \<lparr>px = 0, py = 0, pz = 0\<rparr>, orientation = \<lparr>qx = 0, qy = 0, qz = 0, qw = 1\<rparr>\<rparr>,
        start_time' = 0, expected_duration' = 5,
        pose' = \<lparr>position = \<lparr>px = 0, py = 0, pz = 1/1000\<rparr>, orientation = \<lparr>qx = 0, qy = 0, qz = 0, qw = 1\<rparr>\<rparr>\<rparr>"
       tf_instance
       "\<lparr>position = \<lparr>px = 0, py = 0, pz = 0\<rparr>, orientation = \<lparr>qx = 0, qy = 0, qz = 0, qw = 1\<rparr>\<rparr>"
       "\<lparr>position = \<lparr>px = 0, py = 0, pz = 1/10\<rparr>, orientation = \<lparr>qx = 0, qy = 0, qz = 0, qw = 1\<rparr>\<rparr>"
       7 8]
  by (simp add: isClose'_def) blast

subsection \<open>A leg of zero length\<close>

lemma zero_duration_reset:
  assumes self_pos: "position (relative_transform lib p p) = \<lparr>px = 0, py = 0, pz = 0\<rparr>"
    and self_angle: "getAngleShortestPath lib (orientation (relative_transform lib p p)) = 0"
    and lv: "linear_vel' st \<noteq> 0" and rv: "dquat_rot_vel' st \<noteq> 0"
    and cur: "pose' st = p" and sel: "(if gid = 1 then eef_target1 else eef_target2) = p"
  shows "\<exists>st1. reset' lib eef_target1 eef_target2 now gid st = Inr st1
           \<and> expected_duration' st1 = 0 \<and> pose' st1 = p \<and> to' st1 = p \<and> from' st1 = p
           \<and> start_time' st1 = now \<and> global_target_id' st1 = gid
           \<and> linear_vel' st1 = linear_vel' st \<and> dquat_rot_vel' st1 = dquat_rot_vel' st"
  using sel by (simp add: reset'_result [OF lv rv] cur dPose_geom_def self_pos self_angle Let_def)

lemma isClose'_at_destination: "pose' st = to' st \<Longrightarrow> isClose' st"
  by (simp add: isClose'_def)

lemma zero_duration_quotient:
  assumes "expected_duration' st = 0" and "start_time' st = start"
  shows "ieee_div (now - start_time' st) (expected_duration' st) =
           (if start < now then PosInf else if now < start then NegInf else NaN)"
  using assms by (simp add: ieee_div_zero)

lemma zero_duration_interpolate:
  assumes "expected_duration' st = 0" and "start_time' st = start"
    and "from' st = p" and "to' st = p"
  shows "interpolate lib now st =
           (if start < now
            then Inr (st\<lparr>pose' := \<lparr>position = position p,
                                    orientation = slerp lib (orientation p) (orientation p) 1\<rparr>\<rparr>)
            else Inl NotFinite)"
  using assms by (simp add: interpolate_zero_duration)

text \<open>
  Claim C9. \<^verbatim>\<open>updatePose\<close> divides the elapsed time by \<open>expected_duration'\<close> and does not
  test the divisor (line 435). The library gives the relative transform of a pose to
  itself a zero translation and a zero angle; then every \<^verbatim>\<open>reset_\<close> whose destination is
  the current pose sets the duration to \<open>0\<close>, and the interpolation that follows computes
  the quotient of the elapsed time by \<open>0\<close>. That quotient is \<open>+inf\<close> when time has passed
  since the reset: line 436 replaces it by \<open>1\<close> and the pose is the position of the
  destination (the difference of the two equal positions is \<open>0\<close>, in doubles as well) with
  the orientation that \<open>slerp\<close> returns at \<open>1\<close>. It is NaN when no time has passed, and
  \<open>-inf\<close> when the clock has gone back, and then the position is not a number. The state is
  reached at startup: \<^verbatim>\<open>main\<close> sets both waypoints to the pose of the end effector and
  constructs the target at that pose, so the first call of \<^verbatim>\<open>updatePose\<close>, which finds the
  pose at its destination and resets once more, divides by zero.
\<close>

theorem zero_duration_division:
  assumes self_pos: "position (relative_transform lib p p) = \<lparr>px = 0, py = 0, pz = 0\<rparr>"
    and self_angle: "getAngleShortestPath lib (orientation (relative_transform lib p p)) = 0"
    and lv: "linear_vel \<noteq> 0" and rv: "dquat_rot_vel \<noteq> 0"
  shows "(\<forall>st gid eef_target1 eef_target2 now now'.
            linear_vel' st = linear_vel \<and> dquat_rot_vel' st = dquat_rot_vel \<and> pose' st = p
              \<and> (if gid = 1 then eef_target1 else eef_target2) = p \<longrightarrow>
            (\<exists>st1. reset' lib eef_target1 eef_target2 now gid st = Inr st1
               \<and> expected_duration' st1 = 0
               \<and> ieee_div (now' - start_time' st1) (expected_duration' st1) =
                   (if now < now' then PosInf else if now' < now then NegInf else NaN)
               \<and> interpolate lib now' st1 =
                   (if now < now'
                    then Inr (st1\<lparr>pose' := \<lparr>position = position p,
                                orientation = slerp lib (orientation p) (orientation p) 1\<rparr>\<rparr>)
                    else Inl NotFinite)))
       \<and> (\<exists>st0. LocalTarget_init lib p p now0 p linear_vel dquat_rot_vel = Inr st0
               \<and> expected_duration' st0 = 0
               \<and> (\<exists>st1. check_arrival lib p p now1 st0 = Inr st1
                      \<and> expected_duration' st1 = 0
                      \<and> ieee_div (now2 - start_time' st1) (expected_duration' st1) =
                          (if now1 < now2 then PosInf else if now2 < now1 then NegInf else NaN)
                      \<and> updatePose lib p p now1 now2 st0 =
                          (if now1 < now2
                           then Inr (st1\<lparr>pose' := \<lparr>position = position p,
                                  orientation = slerp lib (orientation p) (orientation p) 1\<rparr>\<rparr>)
                           else Inl NotFinite)))"
proof (intro conjI allI impI)
  fix st :: LocalTarget and gid :: int and eef_target1 eef_target2 :: pose and now now' :: real
  assume a: "linear_vel' st = linear_vel \<and> dquat_rot_vel' st = dquat_rot_vel \<and> pose' st = p
              \<and> (if gid = 1 then eef_target1 else eef_target2) = p"
  then obtain st1 where st1: "reset' lib eef_target1 eef_target2 now gid st = Inr st1"
    "expected_duration' st1 = 0" "start_time' st1 = now" "from' st1 = p" "to' st1 = p"
    using zero_duration_reset [OF self_pos self_angle, of st gid eef_target1 eef_target2 now] lv rv
    by auto
  show "\<exists>st1. reset' lib eef_target1 eef_target2 now gid st = Inr st1
               \<and> expected_duration' st1 = 0
               \<and> ieee_div (now' - start_time' st1) (expected_duration' st1) =
                   (if now < now' then PosInf else if now' < now then NegInf else NaN)
               \<and> interpolate lib now' st1 =
                   (if now < now'
                    then Inr (st1\<lparr>pose' := \<lparr>position = position p,
                                orientation = slerp lib (orientation p) (orientation p) 1\<rparr>\<rparr>)
                    else Inl NotFinite)"
    using st1(1,2) zero_duration_quotient [OF st1(2,3), of now']
      zero_duration_interpolate [OF st1(2,3,4,5), of lib now']
    by (intro exI [of _ st1] conjI)
next
  let ?s = "\<lparr>linear_vel' = linear_vel, dquat_rot_vel' = dquat_rot_vel, global_target_id' = 0,
        from' = p, to' = p, start_time' = 0, expected_duration' = 0, pose' = p\<rparr>"
  obtain st0 where st0: "reset' lib p p now0 1 ?s = Inr st0" "expected_duration' st0 = 0"
    "pose' st0 = p" "to' st0 = p" "linear_vel' st0 = linear_vel" "dquat_rot_vel' st0 = dquat_rot_vel"
    using zero_duration_reset [OF self_pos self_angle, of ?s 1 p p now0] lv rv by auto
  have close: "isClose' st0" using st0 by (simp add: isClose'_at_destination)
  obtain st1 where st1: "reset' lib p p now1 (c_rem (global_target_id' st0 + 1) 2) st0 = Inr st1"
    "expected_duration' st1 = 0" "start_time' st1 = now1" "from' st1 = p" "to' st1 = p"
    using zero_duration_reset [OF self_pos self_angle, of st0 "c_rem (global_target_id' st0 + 1) 2" p p now1]
      st0 lv rv by auto
  have chk: "check_arrival lib p p now1 st0 = Inr st1"
    by (simp add: check_arrival_def close st1(1))
  have up: "updatePose lib p p now1 now2 st0 = interpolate lib now2 st1"
    by (simp add: updatePose_def chk)
  have "\<exists>st1. check_arrival lib p p now1 st0 = Inr st1
                      \<and> expected_duration' st1 = 0
                      \<and> ieee_div (now2 - start_time' st1) (expected_duration' st1) =
                          (if now1 < now2 then PosInf else if now2 < now1 then NegInf else NaN)
                      \<and> updatePose lib p p now1 now2 st0 =
                          (if now1 < now2
                           then Inr (st1\<lparr>pose' := \<lparr>position = position p,
                                  orientation = slerp lib (orientation p) (orientation p) 1\<rparr>\<rparr>)
                           else Inl NotFinite)"
    unfolding up
    using chk st1(2) zero_duration_quotient [OF st1(2,3), of now2]
      zero_duration_interpolate [OF st1(2,3,4,5), of lib now2]
    by (intro exI [of _ st1] conjI)
  then show "\<exists>st0. LocalTarget_init lib p p now0 p linear_vel dquat_rot_vel = Inr st0
               \<and> expected_duration' st0 = 0
               \<and> (\<exists>st1. check_arrival lib p p now1 st0 = Inr st1
                      \<and> expected_duration' st1 = 0
                      \<and> ieee_div (now2 - start_time' st1) (expected_duration' st1) =
                          (if now1 < now2 then PosInf else if now2 < now1 then NegInf else NaN)
                      \<and> updatePose lib p p now1 now2 st0 =
                          (if now1 < now2
                           then Inr (st1\<lparr>pose' := \<lparr>position = position p,
                                  orientation = slerp lib (orientation p) (orientation p) 1\<rparr>\<rparr>)
                           else Inl NotFinite))"
    using st0(1,2) unfolding LocalTarget_init_def by blast
qed

theorem zero_duration_division_witness:
  "\<exists>st0 st1. LocalTarget_init tf_instance
       \<lparr>position = \<lparr>px = 2/5, py = 0, pz = 1/2\<rparr>, orientation = \<lparr>qx = 0, qy = 0, qz = 3/5, qw = 4/5\<rparr>\<rparr>
       \<lparr>position = \<lparr>px = 2/5, py = 0, pz = 1/2\<rparr>, orientation = \<lparr>qx = 0, qy = 0, qz = 3/5, qw = 4/5\<rparr>\<rparr>
       0
       \<lparr>position = \<lparr>px = 2/5, py = 0, pz = 1/2\<rparr>, orientation = \<lparr>qx = 0, qy = 0, qz = 3/5, qw = 4/5\<rparr>\<rparr>
       (1/50) (1/5) = Inr st0
     \<and> expected_duration' st0 = 0
     \<and> check_arrival tf_instance
       \<lparr>position = \<lparr>px = 2/5, py = 0, pz = 1/2\<rparr>, orientation = \<lparr>qx = 0, qy = 0, qz = 3/5, qw = 4/5\<rparr>\<rparr>
       \<lparr>position = \<lparr>px = 2/5, py = 0, pz = 1/2\<rparr>, orientation = \<lparr>qx = 0, qy = 0, qz = 3/5, qw = 4/5\<rparr>\<rparr>
       1 st0 = Inr st1
     \<and> expected_duration' st1 = 0
     \<and> ieee_div (2 - start_time' st1) (expected_duration' st1) = PosInf
     \<and> updatePose tf_instance
       \<lparr>position = \<lparr>px = 2/5, py = 0, pz = 1/2\<rparr>, orientation = \<lparr>qx = 0, qy = 0, qz = 3/5, qw = 4/5\<rparr>\<rparr>
       \<lparr>position = \<lparr>px = 2/5, py = 0, pz = 1/2\<rparr>, orientation = \<lparr>qx = 0, qy = 0, qz = 3/5, qw = 4/5\<rparr>\<rparr>
       1 2 st0
       = Inr (st1\<lparr>pose' := \<lparr>position = \<lparr>px = 2/5, py = 0, pz = 1/2\<rparr>,
                              orientation = \<lparr>qx = 0, qy = 0, qz = 3/5, qw = 4/5\<rparr>\<rparr>\<rparr>)"
proof -
  let ?p = "\<lparr>position = \<lparr>px = 2/5, py = 0, pz = 1/2\<rparr>,
             orientation = \<lparr>qx = 0, qy = 0, qz = 3/5, qw = 4/5\<rparr>\<rparr>"
  have a: "position (relative_transform tf_instance ?p ?p) = \<lparr>px = 0, py = 0, pz = 0\<rparr>"
    by (simp add: tf_instance_def unit_relative_transform_def quat_mult_def quat_conj_def)
  have b: "getAngleShortestPath tf_instance (orientation (relative_transform tf_instance ?p ?p)) = 0"
    by (simp add: tf_instance_def unit_relative_transform_def quat_mult_def quat_conj_def)
  have c: "(1/50 :: real) \<noteq> 0" "(1/5 :: real) \<noteq> 0" by simp_all
  have sl: "slerp tf_instance (orientation ?p) (orientation ?p) 1 = orientation ?p"
    by (simp add: tf_instance_def tf2_slerp_def tf2_angleShortestPath_def quat_dot_def)
  obtain st0 st1 where w:
    "LocalTarget_init tf_instance ?p ?p 0 ?p (1/50) (1/5) = Inr st0"
    "expected_duration' st0 = 0"
    "check_arrival tf_instance ?p ?p 1 st0 = Inr st1"
    "expected_duration' st1 = 0"
    "ieee_div (2 - start_time' st1) (expected_duration' st1) =
       (if (1 :: real) < 2 then PosInf else if (2 :: real) < 1 then NegInf else NaN)"
    "updatePose tf_instance ?p ?p 1 2 st0 =
       (if (1 :: real) < 2
        then Inr (st1\<lparr>pose' := \<lparr>position = position ?p,
                 orientation = slerp tf_instance (orientation ?p) (orientation ?p) 1\<rparr>\<rparr>)
        else Inl NotFinite)"
    using zero_duration_division [OF a b c, of 0 1 2] by blast
  have q: "ieee_div (2 - start_time' st1) (expected_duration' st1) = PosInf"
    using w(5) by simp
  have u: "updatePose tf_instance ?p ?p 1 2 st0 =
       Inr (st1\<lparr>pose' := \<lparr>position = \<lparr>px = 2/5, py = 0, pz = 1/2\<rparr>,
                              orientation = \<lparr>qx = 0, qy = 0, qz = 3/5, qw = 4/5\<rparr>\<rparr>\<rparr>)"
    using w(6) sl by simp
  show ?thesis
    using w(1,2,3,4) q u by blast
qed

subsection \<open>A destination of the opposite sign\<close>

lemma small_square: "\<bar>a\<bar> \<le> c \<Longrightarrow> a * a \<le> c * (c :: real)"
proof -
  assume h: "\<bar>a\<bar> \<le> c"
  have "a * a = \<bar>a\<bar> * \<bar>a\<bar>" by simp
  also have "\<dots> \<le> c * c" using h by (intro mult_mono) auto
  finally show ?thesis .
qed

lemma unit_quat_far_from_opposite:
  assumes unit: "quat_dot q q = 1"
  shows "\<not> (\<bar>- qx q - qx q\<bar> < 0.01 \<and> \<bar>- qy q - qy q\<bar> < 0.01 \<and>
            \<bar>- qz q - qz q\<bar> < 0.01 \<and> \<bar>- qw q - qw q\<bar> < 0.01)"
proof
  assume a: "\<bar>- qx q - qx q\<bar> < 0.01 \<and> \<bar>- qy q - qy q\<bar> < 0.01 \<and>
            \<bar>- qz q - qz q\<bar> < 0.01 \<and> \<bar>- qw q - qw q\<bar> < 0.01"
  have x: "\<bar>qx q\<bar> \<le> 1/200" using a by (auto simp: abs_if split: if_splits)
  have y: "\<bar>qy q\<bar> \<le> 1/200" using a by (auto simp: abs_if split: if_splits)
  have z: "\<bar>qz q\<bar> \<le> 1/200" using a by (auto simp: abs_if split: if_splits)
  have w: "\<bar>qw q\<bar> \<le> 1/200" using a by (auto simp: abs_if split: if_splits)
  have "quat_dot q q \<le> 1/200 * (1/200) + 1/200 * (1/200) + 1/200 * (1/200) + 1/200 * (1/200)"
    unfolding quat_dot_def
    using small_square [OF x] small_square [OF y] small_square [OF z] small_square [OF w]
    by linarith
  then show False using unit by simp
qed

lemma opposite_not_close:
  assumes unit: "quat_dot (orientation (to' st)) (orientation (to' st)) = 1"
    and opp: "orientation (pose' st) = quat_neg (orientation (to' st))"
  shows "\<not> isClose' st"
  using unit_quat_far_from_opposite [OF unit]
  by (simp add: isClose'_iff opp quat_neg_def)

lemma arrived_update:
  assumes far: "\<not> isClose' st"
    and dur: "0 < expected_duration' st"
    and arrived: "expected_duration' st \<le> now - start_time' st"
  shows "updatePose lib eef_target1 eef_target2 now_reset now st =
     Inr (st\<lparr>pose' := \<lparr>position = position (to' st),
                       orientation = slerp lib (orientation (from' st)) (orientation (to' st)) 1\<rparr>\<rparr>)"
proof -
  have d: "expected_duration' st \<noteq> 0" using dur by simp
  have "1 \<le> (now - start_time' st) / expected_duration' st"
    using dur arrived by (simp add: pos_le_divide_eq)
  then have m: "min ((now - start_time' st) / expected_duration' st) 1 = 1"
    by simp
  show ?thesis
    by (simp add: updatePose_def check_arrival_def far interpolate_result [OF d] m)
qed

lemma stuck_run:
  assumes unit: "quat_dot (orientation (to' st)) (orientation (to' st)) = 1"
    and land: "slerp lib (orientation (from' st)) (orientation (to' st)) 1
                 = quat_neg (orientation (to' st))"
    and far: "\<not> isClose' st"
    and dur: "0 < expected_duration' st"
    and arrived: "list_all (\<lambda>(eef_target1, eef_target2, now_reset, now).
                     expected_duration' st \<le> now - start_time' st) ticks"
  shows "\<exists>st'. run_updates lib ticks st = Inr st'
           \<and> global_target_id' st' = global_target_id' st
           \<and> from' st' = from' st \<and> to' st' = to' st
           \<and> \<not> isClose' st'
           \<and> pose' st' = (if ticks = [] then pose' st else
                 \<lparr>position = position (to' st), orientation = quat_neg (orientation (to' st))\<rparr>)"
  using assms
proof (induction ticks arbitrary: st)
  case Nil
  then show ?case by simp
next
  case (Cons tick ticks)
  obtain eef_target1 eef_target2 now_reset now where tick: "tick = (eef_target1, eef_target2, now_reset, now)"
    by (cases tick) auto
  let ?P = "\<lparr>position = position (to' st), orientation = quat_neg (orientation (to' st))\<rparr>"
  let ?s = "st\<lparr>pose' := ?P\<rparr>"
  have now: "expected_duration' st \<le> now - start_time' st"
    using Cons.prems(5) tick by simp
  have step: "updatePose lib eef_target1 eef_target2 now_reset now st = Inr ?s"
    using arrived_update [OF Cons.prems(3) Cons.prems(4) now] Cons.prems(2) by simp
  have far': "\<not> isClose' ?s"
    using Cons.prems(1) by (intro opposite_not_close) simp_all
  have rest: "list_all (\<lambda>(eef_target1, eef_target2, now_reset, now).
                     expected_duration' ?s \<le> now - start_time' ?s) ticks"
    using Cons.prems(5) by simp
  obtain st' where st': "run_updates lib ticks ?s = Inr st'"
      "global_target_id' st' = global_target_id' ?s" "from' st' = from' ?s" "to' st' = to' ?s"
      "\<not> isClose' st'"
      "pose' st' = (if ticks = [] then pose' ?s else
                 \<lparr>position = position (to' ?s), orientation = quat_neg (orientation (to' ?s))\<rparr>)"
    using Cons.IH [of ?s] Cons.prems(1,2,4) far' rest by auto
  show ?case
    using st' by (intro exI [of _ st']) (simp add: tick step)
qed

text \<open>
  Claim C10. \<^verbatim>\<open>isClose_\<close> compares the quaternions component by component, so it tells a
  unit quaternion \<open>q\<close> from \<open>- q\<close>, which is the same rotation. Take a leg whose destination
  has a unit quaternion and for which the library's \<open>slerp\<close> returns the opposite of the
  destination quaternion at \<open>t = 1\<close>. From every tick at which the elapsed time has reached
  the duration, the output pose has the position of the destination and the opposite
  quaternion, \<^verbatim>\<open>isClose_\<close> is false, and the waypoint is never switched, however many
  ticks follow.
\<close>

theorem opposite_sign_blocks_switch:
  assumes unit: "quat_dot (orientation (to' st)) (orientation (to' st)) = 1"
    and land: "slerp lib (orientation (from' st)) (orientation (to' st)) 1
                 = quat_neg (orientation (to' st))"
    and far: "\<not> isClose' st"
    and dur: "0 < expected_duration' st"
    and arrived: "list_all (\<lambda>(eef_target1, eef_target2, now_reset, now).
                     expected_duration' st \<le> now - start_time' st) ticks"
    and some: "ticks \<noteq> []"
  shows "\<exists>st'. run_updates lib ticks st = Inr st'
           \<and> position (pose' st') = position (to' st')
           \<and> orientation (pose' st') = quat_neg (orientation (to' st'))
           \<and> isClose' st' = False
           \<and> global_target_id' st' = global_target_id' st
           \<and> to' st' = to' st"
  using stuck_run [OF unit land far dur arrived] some by auto

lemma tf2_slerp_long_arc:
  "tf2_slerp \<lparr>qx = 0, qy = 0, qz = 0, qw = 1\<rparr> \<lparr>qx = - (3/5), qy = 0, qz = 0, qw = - (4/5)\<rparr> 1
     = \<lparr>qx = 3/5, qy = 0, qz = 0, qw = 4/5\<rparr>"
proof -
  have th: "arccos (4/5) \<noteq> 0"
  proof
    assume "arccos (4/5) = 0"
    then have "cos (arccos (4/5)) = cos 0" by simp
    then show False by simp
  qed
  have sn: "sin (arccos (4/5)) \<noteq> 0"
    using sin_arccos_nonzero [of "4/5"] by simp
  show ?thesis
    by (simp add: tf2_slerp_def tf2_angleShortestPath_def quat_dot_def quat_neg_def Let_def th sn)
qed

theorem opposite_sign_blocks_switch_witness:
  "\<exists>st'. run_updates tf_instance
       [(\<lparr>position = \<lparr>px = 0, py = 0, pz = 1/10\<rparr>,
           orientation = \<lparr>qx = - (3/5), qy = 0, qz = 0, qw = - (4/5)\<rparr>\<rparr>,
         \<lparr>position = \<lparr>px = 0, py = 0, pz = 0\<rparr>,
           orientation = \<lparr>qx = 0, qy = 0, qz = 0, qw = 1\<rparr>\<rparr>, 0, 5),
        (\<lparr>position = \<lparr>px = 0, py = 0, pz = 1/10\<rparr>,
           orientation = \<lparr>qx = - (3/5), qy = 0, qz = 0, qw = - (4/5)\<rparr>\<rparr>,
         \<lparr>position = \<lparr>px = 0, py = 0, pz = 0\<rparr>,
           orientation = \<lparr>qx = 0, qy = 0, qz = 0, qw = 1\<rparr>\<rparr>, 0, 6)]
       \<lparr>linear_vel' = 1/50, dquat_rot_vel' = 1/5, global_target_id' = 1,
        from' = \<lparr>position = \<lparr>px = 0, py = 0, pz = 0\<rparr>,
                 orientation = \<lparr>qx = 0, qy = 0, qz = 0, qw = 1\<rparr>\<rparr>,
        to' = \<lparr>position = \<lparr>px = 0, py = 0, pz = 1/10\<rparr>,
               orientation = \<lparr>qx = - (3/5), qy = 0, qz = 0, qw = - (4/5)\<rparr>\<rparr>,
        start_time' = 0, expected_duration' = 5,
        pose' = \<lparr>position = \<lparr>px = 0, py = 0, pz = 0\<rparr>,
                 orientation = \<lparr>qx = 0, qy = 0, qz = 0, qw = 1\<rparr>\<rparr>\<rparr> = Inr st'
     \<and> position (pose' st') = \<lparr>px = 0, py = 0, pz = 1/10\<rparr>
     \<and> orientation (pose' st') = \<lparr>qx = 3/5, qy = 0, qz = 0, qw = 4/5\<rparr>
     \<and> orientation (to' st') = \<lparr>qx = - (3/5), qy = 0, qz = 0, qw = - (4/5)\<rparr>
     \<and> isClose' st' = False
     \<and> global_target_id' st' = 1"
proof -
  let ?D = "\<lparr>position = \<lparr>px = 0, py = 0, pz = 1/10\<rparr>,
             orientation = \<lparr>qx = - (3/5), qy = 0, qz = 0, qw = - (4/5)\<rparr>\<rparr>"
  let ?S = "\<lparr>position = \<lparr>px = 0, py = 0, pz = 0\<rparr>,
             orientation = \<lparr>qx = 0, qy = 0, qz = 0, qw = 1\<rparr>\<rparr>"
  let ?st = "\<lparr>linear_vel' = 1/50, dquat_rot_vel' = 1/5, global_target_id' = 1,
        from' = ?S, to' = ?D, start_time' = 0, expected_duration' = 5, pose' = ?S\<rparr>"
  let ?ticks = "[(?D, ?S, 0, 5), (?D, ?S, 0, 6 :: real)]"
  have unit: "quat_dot (orientation (to' ?st)) (orientation (to' ?st)) = 1"
    by (simp add: quat_dot_def)
  have land: "slerp tf_instance (orientation (from' ?st)) (orientation (to' ?st)) 1
                 = quat_neg (orientation (to' ?st))"
    by (simp add: tf_instance_def tf2_slerp_long_arc quat_neg_def)
  have far: "\<not> isClose' ?st" by (simp add: isClose'_def)
  have dur: "0 < expected_duration' ?st" by simp
  have arrived: "list_all (\<lambda>(eef_target1, eef_target2, now_reset, now).
                     expected_duration' ?st \<le> now - start_time' ?st) ?ticks"
    by simp
  have some: "?ticks \<noteq> []" by simp
  show ?thesis
    using opposite_sign_blocks_switch [OF unit land far dur arrived some]
    by (auto simp: quat_neg_def)
qed

subsection \<open>The interpolation of one tick\<close>






section \<open>The scenario of the identity Jacobian\<close>

lemma damped_matrix_identity:
  "damped_matrix (mat_identity 6) lambda =
     mat_add (mat_mult (mat_transpose (mat_identity 6)) (mat_identity 6))
       (mat_scale (lambda * lambda) (mat_identity 6))"
  using is_mat_cols [OF is_mat_identity, of 6] is_mat_rows [OF is_mat_identity, of 6]
  by (simp add: damped_matrix_def)

lemma identity_pseudo_inverse:
  assumes inv: "minv (mat_add (mat_mult (mat_transpose (mat_identity 6)) (mat_identity 6))
                   (mat_scale (lambda * lambda) (mat_identity 6)))
                = Some (mat_scale (1 / (1 + lambda * lambda)) (mat_identity 6))"
  shows "calculateDampedPseudoInverse_without_SVD minv (mat_identity 6) eps lambda =
           Inr (mat_scale (1 / (1 + lambda * lambda)) (mat_identity 6))"
proof -
  have m: "mat_mult (mat_scale (1 / (1 + lambda * lambda)) (mat_identity 6))
             (mat_transpose (mat_identity 6))
           = mat_scale (1 / (1 + lambda * lambda)) (mat_identity 6)"
    by (simp add: mat_eval mat_identity_def eval_nat_numeral)
  show ?thesis
    using is_mat_cols [OF is_mat_identity, of 6] is_mat_rows [OF is_mat_identity, of 6]
    by (simp add: without_SVD_damped damped_matrix_identity inv m)
qed

lemma scenario_d_theta:
  "mat_vec (mat_scale c (mat_identity 6)) [0, 0, 0, 1/100, 0, 0] = [0, 0, 0, c * (1/100), 0, 0]"
  by (simp add: mat_eval mat_identity_def eval_nat_numeral)

lemma joint_update_from_zero:
  "length d_theta = length joint_position \<Longrightarrow>
   joint_update_loop dm 0 joint_position d_theta =
     Inr (map2 (+) joint_position (map (clamp_delta dm) d_theta), map (clamp_delta dm) d_theta)"
  using joint_update_loop_inv [of d_theta joint_position 0 dm] by simp

text \<open>
  Claim C4, as the code has it. The joints are at zero, the Jacobian is the identity of
  size 6, the twist error is \<open>(0, 0, 0, 0.01, 0, 0)\<close>, and the inverse routine is exact on
  \<open>(1 + \<lambda>\<^sup>2) I\<close>. The joint step before clamping is \<open>(0, 0, 0, 0.01 / (1 + \<lambda>\<^sup>2), 0, 0)\<close>: its
  only component that is not zero is the fourth, the one of the twist, and it is close to
  \<open>0.01\<close> for a small \<open>\<lambda>\<close>. With a largest step \<open>dm\<close> below that value the joint vector
  advances by exactly \<open>dm\<close> along the fourth joint. The largest step of the source is the
  constant \<open>dmax = \<pi> / 180\<close>, which is above \<open>0.01\<close>: there the step is not clamped and the
  joint vector advances by the solved value.
\<close>

theorem identity_scenario:
  assumes inv: "minv (mat_add (mat_mult (mat_transpose (mat_identity 6)) (mat_identity 6))
                   (mat_scale (lambda * lambda) (mat_identity 6)))
                = Some (mat_scale (1 / (1 + lambda * lambda)) (mat_identity 6))"
  shows "map_sum id (\<lambda>jacb_pseudo_inv. mat_vec jacb_pseudo_inv [0, 0, 0, 1/100, 0, 0])
           (calculateDampedPseudoInverse_without_SVD minv (mat_identity 6) eps lambda)
         = Inr [0, 0, 0, (1/100) / (1 + lambda * lambda), 0, 0]
     \<and> (0 \<le> dm \<and> dm < (1/100) / (1 + lambda * lambda) \<longrightarrow>
          solve_and_integrate minv dm (mat_identity 6) eps lambda
            [0, 0, 0, 1/100, 0, 0] [0, 0, 0, 0, 0, 0]
          = Inr ([0, 0, 0, dm, 0, 0], [0, 0, 0, dm, 0, 0]))
     \<and> solve_and_integrate minv dmax (mat_identity 6) eps lambda
            [0, 0, 0, 1/100, 0, 0] [0, 0, 0, 0, 0, 0]
          = Inr ([0, 0, 0, (1/100) / (1 + lambda * lambda), 0, 0],
                 [0, 0, 0, (1/100) / (1 + lambda * lambda), 0, 0])"
proof -
  define v where "v = (1/100) / (1 + lambda * lambda)"
  note p = identity_pseudo_inverse [where minv = minv and lambda = lambda and eps = eps, OF inv]
  have pos: "0 < 1 + lambda * lambda"
    by (rule add_pos_nonneg) simp_all
  have d: "mat_vec (mat_scale (1 / (1 + lambda * lambda)) (mat_identity 6)) [0, 0, 0, 1/100, 0, 0]
             = [0, 0, 0, v, 0, 0]"
    by (simp add: scenario_d_theta v_def)
  have v0: "0 < v" using pos by (simp add: v_def)
  have "1 \<le> 1 + lambda * lambda" by simp
  then have v1: "v \<le> 1/100" using pos by (simp add: v_def pos_divide_le_eq)
  have big: "1/100 < dmax" using pi_ge_two by (simp add: dmax_def)
  have c0: "clamp_delta dmax 0 = 0" using big by (simp add: clamp_delta_def)
  have n1: "\<not> v > dmax" using big v1 by linarith
  have n2: "\<not> v < - dmax" using big v0 by linarith
  have cv: "clamp_delta dmax v = v"
    unfolding clamp_delta_def using n1 n2 by (simp only: if_False)
  have first: "map_sum id (\<lambda>jacb_pseudo_inv. mat_vec jacb_pseudo_inv [0, 0, 0, 1/100, 0, 0])
           (calculateDampedPseudoInverse_without_SVD minv (mat_identity 6) eps lambda)
         = Inr [0, 0, 0, v, 0, 0]"
    by (simp add: p d)
  have second: "solve_and_integrate minv dm (mat_identity 6) eps lambda
            [0, 0, 0, 1/100, 0, 0] [0, 0, 0, 0, 0, 0]
          = Inr ([0, 0, 0, dm, 0, 0], [0, 0, 0, dm, 0, 0])"
    if "0 \<le> dm \<and> dm < v"
  proof -
    have a: "clamp_delta dm 0 = 0" using that by (simp add: clamp_delta_def)
    have b: "clamp_delta dm v = dm" using that by (simp add: clamp_delta_def)
    show ?thesis
      by (simp add: solve_and_integrate_def p d joint_update_from_zero a b)
  qed
  have third: "solve_and_integrate minv dmax (mat_identity 6) eps lambda
            [0, 0, 0, 1/100, 0, 0] [0, 0, 0, 0, 0, 0]
          = Inr ([0, 0, 0, v, 0, 0], [0, 0, 0, v, 0, 0])"
    by (simp add: solve_and_integrate_def p d joint_update_from_zero c0 cv)
  from first second third show ?thesis unfolding v_def by blast
qed

lemma gauss_jordan_scenario:
  "gauss_jordan_inverse (mat_add (mat_mult (mat_transpose (mat_identity 6)) (mat_identity 6))
                   (mat_scale (1/100 * (1/100)) (mat_identity 6)))
     = Some (mat_scale (1 / (1 + 1/100 * (1/100))) (mat_identity 6))"
  by (simp add: gauss_jordan_eval mat_eval eval_nat_numeral)

theorem identity_scenario_witness:
  "map_sum id (\<lambda>jacb_pseudo_inv. mat_vec jacb_pseudo_inv [0, 0, 0, 1/100, 0, 0])
           (calculateDampedPseudoInverse_without_SVD gauss_jordan_inverse (mat_identity 6) 1 (1/100))
         = Inr [0, 0, 0, 100/10001, 0, 0]
   \<and> solve_and_integrate gauss_jordan_inverse (1/200) (mat_identity 6) 1 (1/100)
            [0, 0, 0, 1/100, 0, 0] [0, 0, 0, 0, 0, 0]
          = Inr ([0, 0, 0, 1/200, 0, 0], [0, 0, 0, 1/200, 0, 0])"
  using identity_scenario [where minv = gauss_jordan_inverse and lambda = "1/100" and eps = 1
      and dm = "1/200", OF gauss_jordan_scenario]
  by simp

text \<open>
  With \<open>\<lambda> = 0.01\<close> the solved step is \<open>(0, 0, 0, 100/10001, 0, 0)\<close>: its first component is
  \<open>0\<close>, not \<open>0.01\<close>, and the loop of the source does not clamp it.
\<close>

theorem identity_scenario_counterexample:
  "solve_and_integrate gauss_jordan_inverse dmax (mat_identity 6) 1 (1/100)
            [0, 0, 0, 1/100, 0, 0] [0, 0, 0, 0, 0, 0]
          = Inr ([0, 0, 0, 100/10001, 0, 0], [0, 0, 0, 100/10001, 0, 0])
   \<and> 1/100 < dmax"
proof -
  have big: "1/100 < dmax" using pi_ge_two by (simp add: dmax_def)
  have c0: "clamp_delta dmax 0 = 0" using big by (simp add: clamp_delta_def)
  have n1: "\<not> 100/10001 > dmax" using big by linarith
  have n2: "\<not> 100/10001 < - dmax" using big by linarith
  have cv: "clamp_delta dmax (100/10001) = 100/10001"
    unfolding clamp_delta_def using n1 n2 by (simp only: if_False)
  have p: "calculateDampedPseudoInverse_without_SVD gauss_jordan_inverse (mat_identity 6) 1 (1/100)
             = Inr (mat_scale (1 / (1 + 1/100 * (1/100))) (mat_identity 6))"
    using gauss_jordan_scenario
    by (rule identity_pseudo_inverse [where minv = gauss_jordan_inverse and lambda = "1/100"])
  have main: "solve_and_integrate gauss_jordan_inverse dmax (mat_identity 6) 1 (1/100)
            [0, 0, 0, 1/100, 0, 0] [0, 0, 0, 0, 0, 0]
          = Inr ([0, 0, 0, 100/10001, 0, 0], [0, 0, 0, 100/10001, 0, 0])"
    by (simp add: solve_and_integrate_def p scenario_d_theta joint_update_from_zero c0 cv)
  from main big show ?thesis by (rule conjI)
qed

section \<open>The logarithm without rotation\<close>

lemma norm3_scale: "norm3 (scale3 c p) = \<bar>c\<bar> * norm3 p"
proof -
  obtain x y z where p: "p = (x, y, z)" by (cases p) auto
  have "c * x * (c * x) + c * y * (c * y) + c * z * (c * z) = c\<^sup>2 * (x * x + y * y + z * z)"
    by (simp add: power2_eq_square algebra_simps)
  then show ?thesis
    by (simp add: p norm3_def scale3_def real_sqrt_mult)
qed

lemma norm3_zero_iff: "norm3 p = 0 \<longleftrightarrow> p = (0, 0, 0)"
proof -
  obtain x y z where p: "p = (x, y, z)" by (cases p) auto
  have "x * x + y * y + z * z = 0 \<longleftrightarrow> x = 0 \<and> y = 0 \<and> z = 0"
    using sum_power2_eq_zero_iff [of "x" "y"] sum_power2_eq_zero_iff [of "sqrt (x\<^sup>2 + y\<^sup>2)" z]
    by (auto simp: power2_eq_square [symmetric] add_nonneg_eq_0_iff)
  then show ?thesis by (simp add: p norm3_def)
qed

lemma norm3_nonneg: "0 \<le> norm3 p"
  by (cases p) (simp add: norm3_def)

lemma normalise_scaled:
  assumes c: "0 < c" and p: "p \<noteq> (0, 0, 0)"
  shows "scale3 (1 / norm3 (scale3 c p)) (scale3 c p) = scale3 (1 / norm3 p) p"
proof -
  obtain x y z where xyz: "p = (x, y, z)" by (cases p) auto
  have n: "norm3 p \<noteq> 0" using p by (simp add: norm3_zero_iff)
  have "norm3 (scale3 c p) = c * norm3 p" using c by (simp add: norm3_scale)
  then show ?thesis using c n by (simp add: xyz scale3_def)
qed

text \<open>
  Claim C8. For a transform whose rotation angle \<open>\<theta>\<close> is approximately zero, the logarithm
  has the zero vector as its angular part; its linear part is \<open>p / \<parallel>p\<parallel>\<close> when the translation
  \<open>p\<close> is not zero and the zero vector when it is. The linear part keeps the direction of
  \<open>p\<close> only: it has norm 1, and scaling \<open>p\<close> by a positive factor does not change the
  result.
\<close>

theorem log_without_rotation:
  assumes small: "\<bar>rotation_angle R\<bar> \<le> tol"
  shows "fst (se3_log tol rotating R p) = (0, 0, 0)
       \<and> snd (se3_log tol rotating R p)
           = (if p = (0, 0, 0) then (0, 0, 0) else scale3 (1 / norm3 p) p)
       \<and> (p \<noteq> (0, 0, 0) \<longrightarrow> norm3 (snd (se3_log tol rotating R p)) = 1)
       \<and> (\<forall>c. 0 < c \<longrightarrow> se3_log tol rotating R (scale3 c p) = se3_log tol rotating R p)"
proof -
  have v: "se3_log tol rotating R q
             = ((0, 0, 0), if q = (0, 0, 0) then (0, 0, 0) else scale3 (1 / norm3 q) q)" for q
    using small by (simp add: se3_log_def)
  have one: "norm3 (scale3 (1 / norm3 p) p) = 1" if "p \<noteq> (0, 0, 0)"
  proof -
    have "0 < norm3 p" using that norm3_nonneg [of p] norm3_zero_iff [of p] by linarith
    then show ?thesis by (simp add: norm3_scale)
  qed
  have inv: "se3_log tol rotating R (scale3 c p) = se3_log tol rotating R p" if c: "0 < c" for c
  proof (cases "p = (0, 0, 0)")
    case True
    then show ?thesis by (simp add: v scale3_def)
  next
    case False
    then have "scale3 c p \<noteq> (0, 0, 0)"
      using c norm3_zero_iff [of "scale3 c p"] norm3_zero_iff [of p] by (simp add: norm3_scale)
    then show ?thesis using False by (simp add: v normalise_scaled [OF c False])
  qed
  show ?thesis using one inv by (simp add: v)
qed

theorem log_without_rotation_witness:
  "se3_log 0 (\<lambda>R p theta. ((theta, 0, 0), p)) ((1, 0, 0), (0, 1, 0), (0, 0, 1)) (3, 0, 4)
     = ((0, 0, 0), (3/5, 0, 4/5))
   \<and> norm3 (3/5, 0, 4/5) = 1"
proof -
  let ?R = "((1, 0, 0), (0, 1, 0), (0, 0, 1)) :: mat3"
  let ?rot = "\<lambda>(R :: mat3) (p :: vec3) (theta :: real). ((theta, 0, 0), p)"
  have small: "\<bar>rotation_angle ?R\<bar> \<le> 0"
    by (simp add: rotation_angle_def trace3_def)
  have s: "sqrt 25 = 5" by (rule real_sqrt_unique) simp_all
  have n: "norm3 (3, 0, 4) = 5" by (simp add: norm3_def s)
  note w = log_without_rotation [OF small, of ?rot "(3, 0, 4)"]
  have f: "fst (se3_log 0 ?rot ?R (3, 0, 4)) = (0, 0, 0)"
    using w by blast
  have sn: "snd (se3_log 0 ?rot ?R (3, 0, 4)) = (3/5, 0, 4/5)"
    using w by (simp add: n scale3_def)
  have ne: "(3, 0, 4) \<noteq> ((0, 0, 0) :: vec3)" by simp
  have nm: "norm3 (snd (se3_log 0 ?rot ?R (3, 0, 4))) = 1"
    using w ne by blast
  have "se3_log 0 ?rot ?R (3, 0, 4) = ((0, 0, 0), (3/5, 0, 4/5))"
    using f sn by (simp add: prod_eq_iff)
  then show ?thesis using nm by (simp only: snd_conv simp_thms)
qed

end
